theory Spec2Isabelle
  imports Complex_Main "HOL-Library.Log_Nat"
begin

section \<open>JavaScript values\<close>

text \<open>
  The payment routes of \<^verbatim>\<open>server/routes/payment.js\<close> read a JSON request body, so every
  field is an arbitrary JSON value (or absent, which JavaScript reads as \<^verbatim>\<open>undefined\<close>).
  A number is an IEEE double: the finite ones are embedded as rationals, next to \<^verbatim>\<open>NaN\<close>
  and the two infinities; the sign of zero is not kept. A string is a list of characters,
  each standing for one code unit below 256.
\<close>

datatype jsnum = NaN | PosInf | NegInf | Fin rat

datatype jsval =
    JUndefined
  | JNull
  | JBool bool
  | JNum jsnum
  | JStr string
  | JArr "jsval list"
  | JObj "(string \<times> jsval) list"

datatype js_error = TypeError | Error string

text \<open>Truthiness (\<^verbatim>\<open>ToBoolean\<close>) and the operator \<^verbatim>\<open>a || b\<close>.\<close>

fun truthy :: "jsval \<Rightarrow> bool" where
  "truthy JUndefined = False"
| "truthy JNull = False"
| "truthy (JBool b) = b"
| "truthy (JNum n) = (n \<noteq> NaN \<and> n \<noteq> Fin 0)"
| "truthy (JStr s) = (s \<noteq> [])"
| "truthy (JArr xs) = True"
| "truthy (JObj fs) = True"

definition js_or :: "jsval \<Rightarrow> jsval \<Rightarrow> jsval" where
  "js_or a b = (if truthy a then a else b)"

definition nullish :: "jsval \<Rightarrow> bool" where
  "nullish v = (v = JUndefined \<or> v = JNull)"

text \<open>
  \<^verbatim>\<open>v.k\<close> for the property names the routes read (\<^verbatim>\<open>id\<close>, \<^verbatim>\<open>productId\<close>, \<^verbatim>\<open>size\<close>,
  \<^verbatim>\<open>qty\<close>, \<^verbatim>\<open>title\<close>, \<^verbatim>\<open>code\<close>, \<^verbatim>\<open>razorpay\<close>, \<^verbatim>\<open>keyId\<close>, \<^verbatim>\<open>keySecret\<close>, \<^verbatim>\<open>currency\<close>,
  \<^verbatim>\<open>email\<close>): an object yields the stored value or \<^verbatim>\<open>undefined\<close>, a primitive or an array
  has none of these properties. On \<^verbatim>\<open>null\<close> and \<^verbatim>\<open>undefined\<close> the read throws a TypeError,
  which each handler below writes out where it reads an item; \<open>get_prop\<close> is the read once
  that case is excluded (and the optional chaining \<^verbatim>\<open>v?.k\<close>).
\<close>

fun get_prop :: "jsval \<Rightarrow> string \<Rightarrow> jsval" where
  "get_prop (JObj fs) k = (case map_of fs k of Some v \<Rightarrow> v | None \<Rightarrow> JUndefined)"
| "get_prop v k = JUndefined"

text \<open>Number operations: \<^verbatim>\<open>Number.isFinite\<close>, \<^verbatim>\<open><\<close> and \<^verbatim>\<open><=\<close>.\<close>

fun isFinite :: "jsnum \<Rightarrow> bool" where
  "isFinite (Fin r) = True"
| "isFinite n = False"

fun num_lt :: "jsnum \<Rightarrow> jsnum \<Rightarrow> bool" where
  "num_lt NaN b = False"
| "num_lt a NaN = False"
| "num_lt (Fin a) (Fin b) = (a < b)"
| "num_lt PosInf b = False"
| "num_lt a NegInf = False"
| "num_lt NegInf b = True"
| "num_lt a PosInf = True"

definition num_le :: "jsnum \<Rightarrow> jsnum \<Rightarrow> bool" where
  "num_le a b = (a \<noteq> NaN \<and> b \<noteq> NaN \<and> \<not> num_lt b a)"

text \<open>
  The result of an arithmetic operation is the exact result rounded to the nearest
  double, ties to the even significand, and an infinity when the rounded magnitude
  reaches \<open>2^1024\<close>. With \<open>e\<close> the binary exponent of the magnitude, at least \<open>-1022\<close>
  (below it lie the subnormal numbers), the doubles around it are the multiples of
  \<open>2^(e - 52)\<close>.
\<close>

definition round_half_even :: "rat \<Rightarrow> int" where
  "round_half_even y =
     (let f = \<lfloor>y\<rfloor>; d = y - of_int f
      in if d < 1 / 2 then f else if 1 / 2 < d then f + 1 else if even f then f else f + 1)"

text \<open>\<open>\<lfloor>log\<^sub>2 a\<rfloor>\<close> for a positive rational \<open>a\<close>.\<close>

definition floor_log2 :: "rat \<Rightarrow> int" where
  "floor_log2 a = (if 1 \<le> a then bitlen \<lfloor>a\<rfloor> - 1 else - bitlen (\<lceil>1 / a\<rceil> - 1))"

definition to_double :: "rat \<Rightarrow> jsnum" where
  "to_double x =
     (if x = 0 then Fin 0
      else
        let a = \<bar>x\<bar>;
            e = max (floor_log2 a) (- 1022);
            q = 2 powi (e - 52);
            r = of_int (round_half_even (a / q)) * q
        in if 2 ^ 1024 \<le> r then (if 0 < x then PosInf else NegInf)
           else Fin (if 0 < x then r else - r))"

text \<open>Binary \<^verbatim>\<open>-\<close> on numbers, and \<^verbatim>\<open>Math.round\<close>.\<close>

fun num_sub :: "jsnum \<Rightarrow> jsnum \<Rightarrow> jsnum" where
  "num_sub NaN b = NaN"
| "num_sub a NaN = NaN"
| "num_sub (Fin a) (Fin b) = to_double (a - b)"
| "num_sub PosInf PosInf = NaN"
| "num_sub NegInf NegInf = NaN"
| "num_sub PosInf b = PosInf"
| "num_sub NegInf b = NegInf"
| "num_sub a PosInf = NegInf"
| "num_sub a NegInf = PosInf"

fun Math_round :: "jsnum \<Rightarrow> jsnum" where
  "Math_round (Fin r) = Fin (of_int \<lfloor>r + 1 / 2\<rfloor>)"
| "Math_round n = n"

section \<open>External collaborators\<close>

text \<open>
  What the routes call but the repository does not define is a parameter of the model:
  the HMAC of Node's \<^verbatim>\<open>crypto\<close>, the payment provider's \<^verbatim>\<open>orders.create\<close>, the clock,
  and the ECMAScript conversions between strings and numbers (\<^verbatim>\<open>StringToNumber\<close>,
  \<^verbatim>\<open>parseFloat\<close> on a string, the text of a number, an array or an object, the message
  of a TypeError). Every theorem below holds for all of them.
\<close>

record provider_request =
  rq_amount :: jsnum
  rq_currency :: jsval
  rq_receipt :: string
  rq_notes_items :: string
  rq_notes_appliedCoupon :: jsval

datatype provider_outcome = ProviderThrows | ProviderReturns jsval

record externals =
  hmac_sha256_hex :: "string \<Rightarrow> string \<Rightarrow> string"
  orders_create :: "jsval \<times> jsval \<Rightarrow> provider_request \<Rightarrow> provider_outcome"
  date_now :: nat
  StringToNumber :: "string \<Rightarrow> jsnum"
  parseFloat_string :: "string \<Rightarrow> jsnum"
  format_value :: "jsval \<Rightarrow> string"
  typeError_message :: string

text \<open>
  Turning a value into a string or a number goes through \<^verbatim>\<open>ToPrimitive\<close>, which throws a
  TypeError when the value is an object with a key \<^verbatim>\<open>toString\<close> of its own (in a parsed
  body its value is never callable, and the inherited \<^verbatim>\<open>valueOf\<close> returns the object
  itself), or an array with such an element, since an array is joined from the strings
  of its elements.
\<close>

fun convertible :: "jsval \<Rightarrow> bool" where
  "convertible (JObj fs) = (map_of fs ''toString'' = None)"
| "convertible (JArr xs) = list_all convertible xs"
| "convertible v = True"

text \<open>
  The string of a value whose conversion does not throw; \<^verbatim>\<open>String(v)\<close> and template
  interpolation, with the throw, are \<open>js_ToString\<close>.
\<close>

definition js_String :: "externals \<Rightarrow> jsval \<Rightarrow> string" where
  "js_String ext v =
     (case v of
        JStr s \<Rightarrow> s
      | JUndefined \<Rightarrow> ''undefined''
      | JNull \<Rightarrow> ''null''
      | JBool b \<Rightarrow> (if b then ''true'' else ''false'')
      | _ \<Rightarrow> format_value ext v)"

definition js_ToString :: "externals \<Rightarrow> jsval \<Rightarrow> js_error + string" where
  "js_ToString ext v = (if convertible v then Inr (js_String ext v) else Inl TypeError)"

text \<open>
  \<^verbatim>\<open>Number(v)\<close>, and the conversion of an operand of \<^verbatim>\<open><\<close> or \<^verbatim>\<open>-\<close> to a number. An array or
  an object that converts is first turned into its text.
\<close>

definition js_Number :: "externals \<Rightarrow> jsval \<Rightarrow> js_error + jsnum" where
  "js_Number ext v =
     (if \<not> convertible v then Inl TypeError
      else Inr (case v of
          JUndefined \<Rightarrow> NaN
        | JNull \<Rightarrow> Fin 0
        | JBool b \<Rightarrow> (if b then Fin 1 else Fin 0)
        | JNum n \<Rightarrow> n
        | JStr s \<Rightarrow> StringToNumber ext s
        | _ \<Rightarrow> StringToNumber ext (format_value ext v)))"

text \<open>
  \<^verbatim>\<open>parseFloat(v)\<close> parses the text of its argument; the text of a number parses back to
  that number.
\<close>

definition parseFloat :: "externals \<Rightarrow> jsval \<Rightarrow> js_error + jsnum" where
  "parseFloat ext v =
     (case v of
        JNum n \<Rightarrow> Inr n
      | _ \<Rightarrow> (case js_ToString ext v of
               Inl e \<Rightarrow> Inl e
             | Inr s \<Rightarrow> Inr (parseFloat_string ext s)))"

definition error_text :: "externals \<Rightarrow> js_error \<Rightarrow> string" where
  "error_text ext e = (case e of Error m \<Rightarrow> m | TypeError \<Rightarrow> typeError_message ext)"

text \<open>\<^verbatim>\<open>s.trim()\<close>, \<^verbatim>\<open>xs.join(sep)\<close> on strings, and the test \<^verbatim>\<open>/^\d{4,8}$/.test(s)\<close>.\<close>

definition is_js_space :: "char \<Rightarrow> bool" where
  "is_js_space c = ((of_char c :: nat) \<in> {9, 10, 11, 12, 13, 32, 160})"

definition js_trim :: "string \<Rightarrow> string" where
  "js_trim s = rev (dropWhile is_js_space (rev (dropWhile is_js_space s)))"

fun join :: "string \<Rightarrow> string list \<Rightarrow> string" where
  "join sep [] = []"
| "join sep [x] = x"
| "join sep (x # y # ys) = x @ sep @ join sep (y # ys)"

definition is_digit :: "char \<Rightarrow> bool" where
  "is_digit c = (48 \<le> (of_char c :: nat) \<and> (of_char c :: nat) \<le> 57)"

definition pinOk :: "string \<Rightarrow> bool" where
  "pinOk s = (4 \<le> length s \<and> length s \<le> 8 \<and> list_all is_digit s)"

section \<open>Documents and server state\<close>

text \<open>
  Modelled from the spec: the Product, Order, User and SiteSetting models
  (\<^verbatim>\<open>server/models/*.js\<close>) are not under \<^verbatim>\<open>src/\<close>. A product has a title, a flat
  \<^verbatim>\<open>stock\<close>, the flag \<^verbatim>\<open>trackInventoryBySize\<close> and \<^verbatim>\<open>sizeInventory\<close>, an ordered sequence
  of \<^verbatim>\<open>{code, qty}\<close> (\<open>None\<close> when the field is not an array). \<^verbatim>\<open>stock\<close> and \<^verbatim>\<open>qty\<close> are
  kept as JavaScript values, since the route reads them with \<^verbatim>\<open>||\<close>, \<^verbatim>\<open><\<close> and \<^verbatim>\<open>-=\<close>.
  \<^verbatim>\<open>Product.findById\<close> is a lookup in a store keyed by the identifier, \<^verbatim>\<open>product.save()\<close>
  writes the document back under it, \<^verbatim>\<open>order.save()\<close> appends the Order Record, and the
  store's operations are taken to resolve.
\<close>

record size_entry =
  code :: string
  qty :: jsval

record product =
  title :: string
  trackInventoryBySize :: bool
  stock :: jsval
  sizeInventory :: "size_entry list option"

record order =
  o_userId :: jsval
  o_name :: jsval
  o_phone :: jsval
  o_address :: jsval
  o_city :: jsval
  o_state :: jsval
  o_pincode :: jsval
  o_paymentMethod :: jsval
  o_items :: jsval
  o_total :: jsval
  o_status :: string
  o_upi :: "(string \<times> jsval) option"

text \<open>\<^verbatim>\<open>req.user\<close>, as the authentication middleware leaves it.\<close>

record auth_user =
  u_id :: jsval
  u_name :: jsval
  u_phone :: jsval
  u_address1 :: jsval
  u_city :: jsval
  u_state :: jsval
  u_pincode :: jsval

text \<open>
  The state a request can read or write: the two environment variables, the settings
  document (\<^verbatim>\<open>SiteSetting.findOne()\<close>, \<^verbatim>\<open>null\<close> when there is none), the products, the
  Order Records, the user documents (\<^verbatim>\<open>User.findById\<close>, \<^verbatim>\<open>null\<close> when there is none)
  and the confirmation e-mails handed to \<^verbatim>\<open>sendOrderConfirmationEmail\<close>.
\<close>

record world =
  env_RAZORPAY_KEY_ID :: "string option"
  env_RAZORPAY_KEY_SECRET :: "string option"
  siteSetting :: jsval
  products :: "jsval \<rightharpoonup> product"
  orders :: "order list"
  users :: "jsval \<Rightarrow> jsval"
  outbox :: "(order \<times> jsval) list"

text \<open>The JSON bodies the three routes answer with, and the HTTP status.\<close>

datatype reply =
    Failure string
  | StockFailure string jsval jsval
  | OrderCreated jsval jsnum jsval string
  | Verified string "order option" jsval jsval
  | ManualAccepted order string

record response =
  status :: nat
  body :: reply

definition failure :: "nat \<Rightarrow> string \<Rightarrow> response" where
  "failure st msg = \<lparr>status = st, body = Failure msg\<rparr>"

definition env_value :: "string option \<Rightarrow> jsval" where
  "env_value e = (case e of None \<Rightarrow> JUndefined | Some s \<Rightarrow> JStr s)"

text \<open>\<^verbatim>\<open>error?.message || fallback\<close> in the routes' outer \<^verbatim>\<open>catch\<close>.\<close>

definition message_or :: "externals \<Rightarrow> js_error \<Rightarrow> string \<Rightarrow> string" where
  "message_or ext e fallback = (if error_text ext e = [] then fallback else error_text ext e)"

section \<open>Gateway credentials\<close>

text \<open>\<^verbatim>\<open>getRazorpayInstance\<close> (payment.js, lines 11-28): the instance is the pair of keys.\<close>

definition getRazorpayInstance :: "world \<Rightarrow> js_error + jsval \<times> jsval" where
  "getRazorpayInstance w =
     (let settings = siteSetting w;
          razorpayConfig = js_or (get_prop settings ''razorpay'') (JObj []);
          keyId = js_or (env_value (env_RAZORPAY_KEY_ID w)) (get_prop razorpayConfig ''keyId'');
          keySecret = js_or (env_value (env_RAZORPAY_KEY_SECRET w)) (get_prop razorpayConfig ''keySecret'')
      in if \<not> truthy keyId \<or> \<not> truthy keySecret
         then Inl (Error ''Razorpay is not configured. Please contact support.'')
         else Inr (keyId, keySecret))"

section \<open>POST /create-order\<close>

record create_body =
  c_amount :: jsval
  c_currency :: jsval
  c_items :: jsval
  c_appliedCoupon :: jsval

text \<open>
  The argument of \<^verbatim>\<open>rzp.orders.create\<close> (lines 67-75). \<^verbatim>\<open>items.map\<close> reads \<^verbatim>\<open>i.title\<close> and
  \<^verbatim>\<open>i.qty\<close> of every element and interpolates them, which throws on a \<^verbatim>\<open>null\<close> element
  and on a title or quantity that does not convert.
\<close>

definition notes_items :: "externals \<Rightarrow> jsval list \<Rightarrow> js_error + string" where
  "notes_items ext xs =
     (if list_ex (\<lambda>i. nullish i \<or> \<not> convertible (get_prop i ''title'')
                      \<or> \<not> convertible (get_prop i ''qty'')) xs
      then Inl TypeError
      else Inr (join '', ''
        (map (\<lambda>i. js_String ext (get_prop i ''title'') @ '' x'' @ js_String ext (get_prop i ''qty'')) xs)))"

definition create_request ::
  "externals \<Rightarrow> create_body \<Rightarrow> jsval list \<Rightarrow> jsnum \<Rightarrow> js_error + provider_request" where
  "create_request ext b xs amountInPaise =
     (case notes_items ext xs of
        Inl e \<Rightarrow> Inl e
      | Inr txt \<Rightarrow> Inr \<lparr>rq_amount = amountInPaise,
          rq_currency = js_or (c_currency b) (JStr ''INR''),
          rq_receipt = ''order_'' @ js_String ext (JNum (Fin (of_nat (date_now ext)))),
          rq_notes_items = txt,
          rq_notes_appliedCoupon = js_or (get_prop (c_appliedCoupon b) ''code'') (JStr ''none'')\<rparr>)"

text \<open>The route handler (lines 31-119); the spec calls it \<^verbatim>\<open>requestGatewayOrder\<close>.\<close>

definition post_create_order :: "externals \<Rightarrow> create_body \<Rightarrow> world \<Rightarrow> response \<times> world" where
  "post_create_order ext b w =
     (case parseFloat ext (c_amount b) of
        Inl error \<Rightarrow> (failure 500 (message_or ext error ''Failed to create order''), w)
      | Inr parsedAmount \<Rightarrow>
      if \<not> isFinite parsedAmount \<or> num_le parsedAmount (Fin 0)
      then (failure 400 ''Invalid amount provided'', w)
      else (case c_items b of
        JArr xs \<Rightarrow>
          if xs = [] then (failure 400 ''No items in order'', w)
          else (case getRazorpayInstance w of
            Inl credError \<Rightarrow> (failure 500 ''Razorpay is not properly configured on the server'', w)
          | Inr rzp \<Rightarrow>
              let amountInPaise = Math_round parsedAmount in
              if num_le amountInPaise (Fin 0)
              then (failure 400 ''Amount must be greater than zero'', w)
              else (case create_request ext b xs amountInPaise of
                Inl orderError \<Rightarrow> (failure 502 ''Failed to create order with payment provider'', w)
              | Inr rq \<Rightarrow>
                  (case orders_create ext rzp rq of
                    ProviderThrows \<Rightarrow>
                      (failure 502 ''Failed to create order with payment provider'', w)
                  | ProviderReturns razorpayOrder \<Rightarrow>
                      if \<not> truthy razorpayOrder \<or> \<not> truthy (get_prop razorpayOrder ''id'')
                      then (failure 502 ''Invalid response from payment provider'', w)
                      else (case env_RAZORPAY_KEY_ID w of
                        None \<Rightarrow> (failure 500 ''Payment gateway configuration incomplete'', w)
                      | Some keyId \<Rightarrow>
                          if keyId = []
                          then (failure 500 ''Payment gateway configuration incomplete'', w)
                          else (\<lparr>status = 200,
                                 body = OrderCreated (get_prop razorpayOrder ''id'') amountInPaise
                                   (js_or (get_prop razorpayOrder ''currency'') (JStr ''INR'')) keyId\<rparr>,
                                w)))))
      | _ \<Rightarrow> (failure 400 ''No items in order'', w)))"

section \<open>The inventory loop\<close>

text \<open>
  The loop \<^verbatim>\<open>for (const item of items)\<close> stands twice in the file, at lines 194-234
  (POST /verify) and at lines 325-365 (POST /manual), with the same text; one function
  embeds both. An iteration either goes on to the next item, returns a response from
  the handler, or throws into the handler's outer \<^verbatim>\<open>catch\<close>. Each \<^verbatim>\<open>product.save()\<close>
  is written to the store at once.
\<close>

datatype step = Continue | Return response | Throw js_error

fun findIndex :: "('a \<Rightarrow> bool) \<Rightarrow> 'a list \<Rightarrow> nat option" where
  "findIndex P [] = None"
| "findIndex P (x # xs) = (if P x then Some 0 else map_option Suc (findIndex P xs))"

text \<open>\<^verbatim>\<open>Number(item.qty || 1)\<close>, which throws when the quantity does not convert.\<close>

definition requestedQty :: "externals \<Rightarrow> jsval \<Rightarrow> js_error + jsnum" where
  "requestedQty ext item = js_Number ext (js_or (get_prop item ''qty'') (JNum (Fin 1)))"

text \<open>
  The per-size branch (lines 201-217). \<^verbatim>\<open>s.code === item.size\<close> holds exactly when
  \<^verbatim>\<open>item.size\<close> is the string \<^verbatim>\<open>s.code\<close>, so the size in the message is a string. The
  comparison and the subtraction convert the stored quantity to a number.
\<close>

definition decrementSize ::
  "externals \<Rightarrow> jsval \<Rightarrow> jsval \<Rightarrow> product \<Rightarrow> size_entry list \<Rightarrow> (jsval \<rightharpoonup> product)
     \<Rightarrow> (jsval \<rightharpoonup> product) \<times> step" where
  "decrementSize ext item productId p sizeInv ps =
     (case findIndex (\<lambda>s. JStr (code s) = get_prop item ''size'') sizeInv of
        None \<Rightarrow> (ps, Continue)
      | Some sizeIdx \<Rightarrow>
          let currentQty = qty (sizeInv ! sizeIdx) in
          (case requestedQty ext item of
             Inl e \<Rightarrow> (ps, Throw e)
           | Inr requested \<Rightarrow>
               (case js_Number ext currentQty of
                  Inl e \<Rightarrow> (ps, Throw e)
                | Inr current \<Rightarrow>
                    if num_lt current requested
                    then (ps, Return \<lparr>status = 409,
                            body = StockFailure
                              (''Insufficient stock for '' @ title p @ '' size ''
                                 @ js_String ext (get_prop item ''size''))
                              productId currentQty\<rparr>)
                    else (ps(productId \<mapsto> p\<lparr>sizeInventory := Some (sizeInv[sizeIdx :=
                              (sizeInv ! sizeIdx)\<lparr>qty := JNum (num_sub current requested)\<rparr>])\<rparr>),
                          Continue))))"

text \<open>The flat-stock branch (lines 219-230).\<close>

definition decrementFlat ::
  "externals \<Rightarrow> jsval \<Rightarrow> jsval \<Rightarrow> product \<Rightarrow> (jsval \<rightharpoonup> product)
     \<Rightarrow> (jsval \<rightharpoonup> product) \<times> step" where
  "decrementFlat ext item productId p ps =
     (let currentStock = js_or (stock p) (JNum (Fin 0)) in
      case requestedQty ext item of
        Inl e \<Rightarrow> (ps, Throw e)
      | Inr requested \<Rightarrow>
          (case js_Number ext currentStock of
             Inl e \<Rightarrow> (ps, Throw e)
           | Inr current \<Rightarrow>
               if num_lt current requested
               then (ps, Return \<lparr>status = 409,
                       body = StockFailure (''Insufficient stock for '' @ title p) productId
                         currentStock\<rparr>)
               else (case js_Number ext (stock p) of
                       Inl e \<Rightarrow> (ps, Throw e)
                     | Inr old \<Rightarrow>
                         (ps(productId \<mapsto> p\<lparr>stock := JNum (num_sub old requested)\<rparr>),
                          Continue))))"

text \<open>One iteration (lines 196-233).\<close>

definition decrementItem ::
  "externals \<Rightarrow> jsval \<Rightarrow> (jsval \<rightharpoonup> product) \<Rightarrow> (jsval \<rightharpoonup> product) \<times> step" where
  "decrementItem ext item ps =
     (if nullish item then (ps, Throw TypeError)
      else
        let productId = js_or (get_prop item ''id'') (get_prop item ''productId'') in
        if \<not> truthy productId then (ps, Continue)
        else (case ps productId of
          None \<Rightarrow> (ps, Continue)
        | Some p \<Rightarrow>
            (case sizeInventory p of
               Some sizeInv \<Rightarrow>
                 if trackInventoryBySize p \<and> truthy (get_prop item ''size'')
                 then decrementSize ext item productId p sizeInv ps
                 else if \<not> trackInventoryBySize p then decrementFlat ext item productId p ps
                 else (ps, Continue)
             | None \<Rightarrow>
                 if \<not> trackInventoryBySize p then decrementFlat ext item productId p ps
                 else (ps, Continue))))"

fun decrementInventory ::
  "externals \<Rightarrow> jsval list \<Rightarrow> (jsval \<rightharpoonup> product) \<Rightarrow> (jsval \<rightharpoonup> product) \<times> step" where
  "decrementInventory ext [] ps = (ps, Continue)"
| "decrementInventory ext (item # rest) ps =
     (case decrementItem ext item ps of
        (ps', Continue) \<Rightarrow> decrementInventory ext rest ps'
      | (ps', r) \<Rightarrow> (ps', r))"

text \<open>The confirmation e-mail (lines 253-260 and 388-395); a failure to send is only logged.\<close>

definition notify :: "order \<Rightarrow> auth_user \<Rightarrow> world \<Rightarrow> world" where
  "notify ord u w =
     (let user = users w (u_id u) in
      if truthy user \<and> truthy (get_prop user ''email'')
      then w\<lparr>outbox := outbox w @ [(ord, user)]\<rparr>
      else w)"

section \<open>POST /verify\<close>

record verify_body =
  v_razorpayOrderId :: jsval
  v_razorpayPaymentId :: jsval
  v_razorpaySignature :: jsval
  v_items :: jsval
  v_appliedCoupon :: jsval
  v_total :: jsval
  v_name :: jsval
  v_phone :: jsval
  v_address :: jsval
  v_city :: jsval
  v_state :: jsval
  v_pincode :: jsval

text \<open>\<^verbatim>\<open>!x || typeof x !== 'string' || !x.trim()\<close> (lines 127, 134, 141).\<close>

definition missing_or_invalid :: "jsval \<Rightarrow> bool" where
  "missing_or_invalid x = (case x of JStr s \<Rightarrow> js_trim s = [] | _ \<Rightarrow> True)"

text \<open>The secret (lines 149-162): the instance must resolve and the variable must be set.\<close>

definition resolveKeySecret :: "world \<Rightarrow> js_error + string" where
  "resolveKeySecret w =
     (case getRazorpayInstance w of
        Inl e \<Rightarrow> Inl e
      | Inr rzp \<Rightarrow>
          (case env_RAZORPAY_KEY_SECRET w of
             None \<Rightarrow> Inl (Error ''Key secret not found'')
           | Some keySecret \<Rightarrow>
               if keySecret = [] then Inl (Error ''Key secret not found'') else Inr keySecret))"

text \<open>
  The signature comparison (lines 165-170). The two identifiers have passed the check
  above, so they are strings and their interpolation does not throw.
\<close>

definition verifySignature :: "externals \<Rightarrow> string \<Rightarrow> string \<Rightarrow> jsval \<Rightarrow> string \<Rightarrow> bool" where
  "verifySignature ext razorpayOrderId razorpayPaymentId razorpaySignature keySecret =
     (JStr (hmac_sha256_hex ext keySecret (razorpayOrderId @ ''|'' @ razorpayPaymentId))
        = razorpaySignature)"

text \<open>\<^verbatim>\<open>items && Array.isArray(items) && items.length > 0\<close> (line 178).\<close>

definition item_payload :: "jsval \<Rightarrow> jsval list option" where
  "item_payload v = (case v of JArr xs \<Rightarrow> (if xs = [] then None else Some xs) | _ \<Rightarrow> None)"

text \<open>The route handler (lines 122-289); the spec calls it \<^verbatim>\<open>confirmGatewayPayment\<close>.\<close>

definition verify_order :: "auth_user \<Rightarrow> verify_body \<Rightarrow> order" where
  "verify_order u b =
     \<lparr>o_userId = u_id u,
      o_name = js_or (v_name b) (u_name u),
      o_phone = js_or (v_phone b) (u_phone u),
      o_address = js_or (v_address b) (u_address1 u),
      o_city = js_or (v_city b) (u_city u),
      o_state = js_or (v_state b) (u_state u),
      o_pincode = js_or (v_pincode b) (u_pincode u),
      o_paymentMethod = JStr ''Razorpay'',
      o_items = v_items b,
      o_total = js_or (v_total b) (JNum (Fin 0)),
      o_status = ''paid'',
      o_upi = None\<rparr>"

definition post_verify ::
  "externals \<Rightarrow> auth_user \<Rightarrow> verify_body \<Rightarrow> world \<Rightarrow> response \<times> world" where
  "post_verify ext u b w =
     (if missing_or_invalid (v_razorpayOrderId b)
      then (failure 400 ''Missing or invalid Razorpay order ID'', w)
      else if missing_or_invalid (v_razorpayPaymentId b)
      then (failure 400 ''Missing or invalid Razorpay payment ID'', w)
      else if missing_or_invalid (v_razorpaySignature b)
      then (failure 400 ''Missing or invalid payment signature'', w)
      else (case resolveKeySecret w of
        Inl credError \<Rightarrow> (failure 500 ''Payment verification system not configured'', w)
      | Inr keySecret \<Rightarrow>
          if \<not> verifySignature ext (js_String ext (v_razorpayOrderId b))
                 (js_String ext (v_razorpayPaymentId b)) (v_razorpaySignature b) keySecret
          then (failure 400 ''Invalid payment signature'', w)
          else (case item_payload (v_items b) of
            None \<Rightarrow>
              (\<lparr>status = 200,
                body = Verified ''Payment verified successfully'' None
                  (v_razorpayPaymentId b) (v_razorpayOrderId b)\<rparr>, w)
          | Some xs \<Rightarrow>
              if \<not> truthy (v_city b) \<or> \<not> truthy (v_state b) \<or> \<not> truthy (v_pincode b)
              then (failure 400 ''City, state, and pincode are required'', w)
              else (case js_ToString ext (v_pincode b) of
                Inl e \<Rightarrow> (failure 500 (message_or ext e ''Payment verification failed''), w)
              | Inr pin \<Rightarrow>
                  if \<not> pinOk pin then (failure 400 ''Invalid pincode'', w)
                  else (case decrementInventory ext xs (products w) of
                    (ps, Return r) \<Rightarrow> (r, w\<lparr>products := ps\<rparr>)
                  | (ps, Throw e) \<Rightarrow>
                      (failure 500 (message_or ext e ''Payment verification failed''),
                       w\<lparr>products := ps\<rparr>)
                  | (ps, Continue) \<Rightarrow>
                      let ord = verify_order u b in
                      (\<lparr>status = 200,
                        body = Verified ''Payment verified successfully'' (Some ord)
                          (v_razorpayPaymentId b) (v_razorpayOrderId b)\<rparr>,
                       notify ord u (w\<lparr>products := ps, orders := orders w @ [ord]\<rparr>)))))))"

section \<open>POST /manual\<close>

record manual_body =
  m_transactionId :: jsval
  m_amount :: jsval
  m_paymentMethod :: jsval
  m_items :: jsval
  m_appliedCoupon :: jsval
  m_name :: jsval
  m_phone :: jsval
  m_address :: jsval
  m_city :: jsval
  m_state :: jsval
  m_pincode :: jsval

text \<open>
  \<^verbatim>\<open>!transactionId || !transactionId.trim()\<close> (line 296): a truthy value that is not a
  string has no \<^verbatim>\<open>trim\<close> to call, and the call throws a TypeError.
\<close>

definition transaction_check :: "jsval \<Rightarrow> js_error + bool" where
  "transaction_check t =
     (if \<not> truthy t then Inr True
      else case t of JStr s \<Rightarrow> Inr (js_trim s = []) | _ \<Rightarrow> Inl TypeError)"

definition manual_order :: "auth_user \<Rightarrow> manual_body \<Rightarrow> order" where
  "manual_order u b =
     \<lparr>o_userId = u_id u,
      o_name = js_or (m_name b) (u_name u),
      o_phone = js_or (m_phone b) (u_phone u),
      o_address = js_or (m_address b) (u_address1 u),
      o_city = js_or (m_city b) (u_city u),
      o_state = js_or (m_state b) (u_state u),
      o_pincode = js_or (m_pincode b) (u_pincode u),
      o_paymentMethod = js_or (m_paymentMethod b) (JStr ''UPI''),
      o_items = m_items b,
      o_total = m_amount b,
      o_status = ''pending'',
      o_upi = Some (js_trim (case m_transactionId b of JStr s \<Rightarrow> s | _ \<Rightarrow> []),
                    js_or (u_name u) (JStr []))\<rparr>"

text \<open>The route handler (lines 292-409); the spec calls it \<^verbatim>\<open>submitManualPayment\<close>.\<close>

definition post_manual ::
  "externals \<Rightarrow> auth_user \<Rightarrow> manual_body \<Rightarrow> world \<Rightarrow> response \<times> world" where
  "post_manual ext u b w =
     (case transaction_check (m_transactionId b) of
        Inl e \<Rightarrow> (failure 500 (message_or ext e ''Failed to process payment''), w)
      | Inr True \<Rightarrow> (failure 400 ''Transaction ID is required'', w)
      | Inr False \<Rightarrow>
          (case m_items b of
             JArr xs \<Rightarrow>
               if xs = [] then (failure 400 ''No items in order'', w)
               else if \<not> truthy (m_city b) \<or> \<not> truthy (m_state b) \<or> \<not> truthy (m_pincode b)
               then (failure 400 ''City, state, and pincode are required'', w)
               else (case js_ToString ext (m_pincode b) of
                 Inl e \<Rightarrow> (failure 500 (message_or ext e ''Failed to process payment''), w)
               | Inr pin \<Rightarrow>
                   if \<not> pinOk pin then (failure 400 ''Invalid pincode'', w)
                   else (case decrementInventory ext xs (products w) of
                     (ps, Return r) \<Rightarrow> (r, w\<lparr>products := ps\<rparr>)
                   | (ps, Throw e) \<Rightarrow>
                       (failure 500 (message_or ext e ''Failed to process payment''),
                        w\<lparr>products := ps\<rparr>)
                   | (ps, Continue) \<Rightarrow>
                       let ord = manual_order u b in
                       (\<lparr>status = 200,
                         body = ManualAccepted ord
                           ''Order created successfully. Your payment is pending verification.''\<rparr>,
                        notify ord u (w\<lparr>products := ps, orders := orders w @ [ord]\<rparr>))))
           | _ \<Rightarrow> (failure 400 ''No items in order'', w)))"

section \<open>Predicates of the properties\<close>

text \<open>
  A request reaches the inventory loop with the item list \<open>xs\<close> when it passes every
  check the handler makes before the loop: for POST /verify the three identifiers, the
  secret, the signature, a non-empty item array, the presence of city, state and
  pincode, and the pincode pattern; for POST /manual the transaction id, a non-empty
  item array, and the same three fields and pattern.
\<close>

definition verify_reaches_loop :: "externals \<Rightarrow> verify_body \<Rightarrow> world \<Rightarrow> jsval list \<Rightarrow> bool" where
  "verify_reaches_loop ext b w xs =
     (\<not> missing_or_invalid (v_razorpayOrderId b)
      \<and> \<not> missing_or_invalid (v_razorpayPaymentId b)
      \<and> \<not> missing_or_invalid (v_razorpaySignature b)
      \<and> (case resolveKeySecret w of
            Inl e \<Rightarrow> False
          | Inr keySecret \<Rightarrow>
              verifySignature ext (js_String ext (v_razorpayOrderId b))
                (js_String ext (v_razorpayPaymentId b)) (v_razorpaySignature b) keySecret)
      \<and> item_payload (v_items b) = Some xs
      \<and> truthy (v_city b) \<and> truthy (v_state b) \<and> truthy (v_pincode b)
      \<and> (case js_ToString ext (v_pincode b) of Inl e \<Rightarrow> False | Inr pin \<Rightarrow> pinOk pin))"

definition manual_reaches_loop :: "externals \<Rightarrow> manual_body \<Rightarrow> jsval list \<Rightarrow> bool" where
  "manual_reaches_loop ext b xs =
     (transaction_check (m_transactionId b) = Inr False
      \<and> item_payload (m_items b) = Some xs
      \<and> truthy (m_city b) \<and> truthy (m_state b) \<and> truthy (m_pincode b)
      \<and> (case js_ToString ext (m_pincode b) of Inl e \<Rightarrow> False | Inr pin \<Rightarrow> pinOk pin))"

text \<open>
  The Product invariant of the spec: every flat stock and every per-size quantity is a
  non-negative integer. Next to it stand the same with \<^verbatim>\<open>Infinity\<close> allowed, and the
  non-negative integers below \<open>2^53\<close>, on which the arithmetic of doubles is exact.
\<close>

definition whole :: "rat \<Rightarrow> bool" where
  "whole r = (of_int \<lfloor>r\<rfloor> = r)"

fun nat_valued :: "jsval \<Rightarrow> bool" where
  "nat_valued (JNum (Fin r)) = (0 \<le> r \<and> whole r)"
| "nat_valued v = False"

fun nat_or_infinite :: "jsval \<Rightarrow> bool" where
  "nat_or_infinite (JNum PosInf) = True"
| "nat_or_infinite v = nat_valued v"

fun safe_nat :: "jsval \<Rightarrow> bool" where
  "safe_nat (JNum (Fin r)) = (0 \<le> r \<and> whole r \<and> r < 2 ^ 53)"
| "safe_nat v = False"

definition product_ok :: "(jsval \<Rightarrow> bool) \<Rightarrow> product \<Rightarrow> bool" where
  "product_ok V p =
     (V (stock p)
      \<and> (case sizeInventory p of None \<Rightarrow> True | Some es \<Rightarrow> list_all (\<lambda>e. V (qty e)) es))"

definition stock_invariant :: "(jsval \<Rightarrow> bool) \<Rightarrow> (jsval \<rightharpoonup> product) \<Rightarrow> bool" where
  "stock_invariant V ps = (\<forall>k p. ps k = Some p \<longrightarrow> product_ok V p)"

text \<open>
  A line item whose requested quantity \<^verbatim>\<open>Number(item.qty || 1)\<close> is an integer, and one
  whose requested quantity is a non-negative integer.
\<close>

definition whole_request :: "externals \<Rightarrow> jsval \<Rightarrow> bool" where
  "whole_request ext item =
     (case requestedQty ext item of Inr (Fin r) \<Rightarrow> whole r | _ \<Rightarrow> False)"

definition natural_request :: "externals \<Rightarrow> jsval \<Rightarrow> bool" where
  "natural_request ext item =
     (case requestedQty ext item of Inr (Fin r) \<Rightarrow> whole r \<and> 0 \<le> r | _ \<Rightarrow> False)"

text \<open>The item array of a body, empty when the field is not an array.\<close>

definition items_of :: "jsval \<Rightarrow> jsval list" where
  "items_of v = (case v of JArr xs \<Rightarrow> xs | _ \<Rightarrow> [])"

section \<open>Sample data\<close>

text \<open>
  Concrete collaborators, state and requests on which the definitions are run: a toy
  digest (key followed by message), a provider that answers every call with the order
  \<^verbatim>\<open>order_1\<close>, product \<^verbatim>\<open>P1\<close> with flat stock 5, product \<^verbatim>\<open>P2\<close> with sizes S (1) and M (2),
  and product \<^verbatim>\<open>P0\<close> with flat stock 0.
\<close>

definition sample_ext :: externals where
  "sample_ext =
     \<lparr>hmac_sha256_hex = (\<lambda>k m. k @ m),
      orders_create = (\<lambda>rzp rq.
        ProviderReturns (JObj [(''id'', JStr ''order_1''), (''currency'', JStr ''INR'')])),
      date_now = 0,
      StringToNumber = (\<lambda>s. NaN),
      parseFloat_string = (\<lambda>s. NaN),
      format_value = (\<lambda>v. ''?''),
      typeError_message = ''TypeError''\<rparr>"

definition sample_products :: "jsval \<rightharpoonup> product" where
  "sample_products =
     [JStr ''P1'' \<mapsto> \<lparr>title = ''Shirt'', trackInventoryBySize = False,
                      stock = JNum (Fin 5), sizeInventory = None\<rparr>,
      JStr ''P2'' \<mapsto> \<lparr>title = ''Jeans'', trackInventoryBySize = True,
                      stock = JNum (Fin 0),
                      sizeInventory = Some [\<lparr>code = ''S'', qty = JNum (Fin 1)\<rparr>,
                                            \<lparr>code = ''M'', qty = JNum (Fin 2)\<rparr>]\<rparr>,
      JStr ''P0'' \<mapsto> \<lparr>title = ''Cap'', trackInventoryBySize = False,
                      stock = JNum (Fin 0), sizeInventory = None\<rparr>]"

definition sample_world :: world where
  "sample_world =
     \<lparr>env_RAZORPAY_KEY_ID = Some ''rzp_key'',
      env_RAZORPAY_KEY_SECRET = Some ''secret'',
      siteSetting = JNull,
      products = sample_products,
      orders = [],
      users = (\<lambda>i. JNull),
      outbox = []\<rparr>"

definition sample_user :: auth_user where
  "sample_user =
     \<lparr>u_id = JStr ''U1'', u_name = JStr ''Asha'', u_phone = JStr ''9000000000'',
      u_address1 = JStr ''1 Main Road'', u_city = JStr ''Pune'', u_state = JStr ''MH'',
      u_pincode = JStr ''411001''\<rparr>"

definition line_item :: "string \<Rightarrow> jsval \<Rightarrow> jsval \<Rightarrow> jsval" where
  "line_item pid sz q =
     JObj [(''productId'', JStr pid), (''title'', JStr ''item''), (''size'', sz), (''qty'', q)]"

definition sample_create :: "jsval \<Rightarrow> jsval \<Rightarrow> create_body" where
  "sample_create amt xs =
     \<lparr>c_amount = amt, c_currency = JUndefined, c_items = xs, c_appliedCoupon = JUndefined\<rparr>"

definition sample_verify :: "jsval \<Rightarrow> jsval \<Rightarrow> verify_body" where
  "sample_verify xs pin =
     \<lparr>v_razorpayOrderId = JStr ''order_1'', v_razorpayPaymentId = JStr ''pay_1'',
      v_razorpaySignature = JStr ''secretorder_1|pay_1'', v_items = xs,
      v_appliedCoupon = JUndefined, v_total = JNum (Fin 100), v_name = JUndefined,
      v_phone = JUndefined, v_address = JUndefined, v_city = JStr ''Pune'',
      v_state = JStr ''MH'', v_pincode = pin\<rparr>"

definition sample_manual :: "jsval \<Rightarrow> jsval \<Rightarrow> manual_body" where
  "sample_manual xs pin =
     \<lparr>m_transactionId = JStr ''TXN42'', m_amount = JNum (Fin 100),
      m_paymentMethod = JUndefined, m_items = xs, m_appliedCoupon = JUndefined,
      m_name = JUndefined, m_phone = JUndefined, m_address = JUndefined,
      m_city = JStr ''Pune'', m_state = JStr ''MH'', m_pincode = pin\<rparr>"

section \<open>Auxiliary facts\<close>

lemma floor_rat_numeral: "\<lfloor>numeral a / numeral b :: rat\<rfloor> = numeral a div numeral b"
  using floor_divide_of_int_eq [of "numeral a" "numeral b", where ?'a = rat] by simp

lemma floor_rat_one: "\<lfloor>1 / numeral b :: rat\<rfloor> = 1 div numeral b"
  using floor_divide_of_int_eq [of 1 "numeral b", where ?'a = rat] by simp

lemmas floor_rat = floor_rat_numeral floor_rat_one

lemma truthy_get_prop: "truthy (get_prop v k) \<Longrightarrow> truthy v"
  by (cases v) simp_all

lemma item_payload_Some: "item_payload v = Some xs \<longleftrightarrow> v = JArr xs \<and> xs \<noteq> []"
  by (cases v) (auto simp: item_payload_def)

lemma item_payload_None: "item_payload v = None \<longleftrightarrow> (\<forall>xs. v = JArr xs \<longrightarrow> xs = [])"
  by (cases v) (auto simp: item_payload_def)

lemma round_positive: "num_le (Math_round (Fin a)) (Fin 0) \<longleftrightarrow> a < 1 / 2"
proof -
  have "num_le (Math_round (Fin a)) (Fin 0) \<longleftrightarrow> \<not> 0 < \<lfloor>a + 1 / 2\<rfloor>"
    by (simp add: num_le_def del: zero_less_floor)
  also have "\<dots> \<longleftrightarrow> \<not> 1 \<le> a + 1 / 2" by simp
  also have "\<dots> \<longleftrightarrow> a < 1 / 2" by linarith
  finally show ?thesis .
qed

lemma round_whole: "whole a \<Longrightarrow> Math_round (Fin a) = Fin a"
proof -
  assume "whole a"
  then obtain n :: int where a: "a = of_int n" unfolding whole_def by metis
  have "\<lfloor>(of_int n :: rat) + 1 / 2\<rfloor> = n" by (simp add: floor_unique)
  with a show ?thesis by simp
qed

lemma js_ToString_JStr: "js_ToString ext (JStr s) = Inr s"
  by (simp add: js_ToString_def js_String_def)

lemma js_Number_JNum: "js_Number ext (JNum n) = Inr n"
  by (simp add: js_Number_def)

section \<open>Rounding to a double\<close>

lemma whole_of_int [simp]: "whole (of_int k)"
  by (simp add: whole_def)

lemma whole_zero [simp]: "whole 0"
  by (simp add: whole_def)

lemma whole_obtain: "whole r \<Longrightarrow> \<exists>k. r = of_int k"
  unfolding whole_def by metis

lemma whole_diff: "whole a \<Longrightarrow> whole b \<Longrightarrow> whole (a - b)"
proof -
  assume "whole a" "whole b"
  then obtain m n :: int where "a = of_int m" "b = of_int n"
    using whole_obtain by blast
  then have "a - b = of_int (m - n)" by simp
  then show ?thesis by (metis whole_of_int)
qed

lemma round_half_even_of_int [simp]: "round_half_even (of_int k) = k"
  by (simp add: round_half_even_def)

lemma round_half_even_nonneg: "0 \<le> y \<Longrightarrow> 0 \<le> round_half_even y"
  by (auto simp: round_half_even_def Let_def)

lemma quantum_big: "52 \<le> e \<Longrightarrow> (2::rat) powi (e - 52) = of_int (2 ^ nat (e - 52))"
  by (simp add: power_int_def)

lemma quantum_small: "e < 52 \<Longrightarrow> (2::rat) powi (e - 52) = 1 / of_int (2 ^ nat (52 - e))"
proof -
  assume "e < 52"
  then have "(2::rat) powi (e - 52) = inverse 2 ^ nat (52 - e)"
    by (simp add: power_int_def)
  also have "\<dots> = 1 / 2 ^ nat (52 - e)"
    by (simp add: power_one_over inverse_eq_divide)
  finally show ?thesis by simp
qed

lemma to_double_whole:
  assumes "whole x" and "0 \<le> x"
  shows "to_double x = PosInf \<or> (\<exists>y. to_double x = Fin y \<and> 0 \<le> y \<and> whole y)"
proof (cases "x = 0")
  case True
  then show ?thesis by (simp add: to_double_def)
next
  case False
  with assms have pos: "0 < x" by simp
  from assms(1) obtain k where k: "x = of_int k" using whole_obtain by blast
  define e where "e = max (floor_log2 \<bar>x\<bar>) (- 1022)"
  define q where "q = (2::rat) powi (e - 52)"
  define r where "r = of_int (round_half_even (\<bar>x\<bar> / q)) * q"
  have qpos: "0 < q" by (simp add: q_def)
  have td: "to_double x = (if 2 ^ 1024 \<le> r then PosInf else Fin r)"
    using pos by (simp add: to_double_def Let_def e_def q_def r_def)
  have "0 \<le> \<bar>x\<bar> / q" using qpos by simp
  then have n0: "0 \<le> round_half_even (\<bar>x\<bar> / q)" by (rule round_half_even_nonneg)
  then have r0: "0 \<le> r" using qpos by (simp add: r_def)
  have "whole r"
  proof (cases "52 \<le> e")
    case True
    then have "q = of_int (2 ^ nat (e - 52))" unfolding q_def by (rule quantum_big)
    then have "r = of_int (round_half_even (\<bar>x\<bar> / q) * 2 ^ nat (e - 52))"
      by (simp add: r_def)
    then show ?thesis by (metis whole_of_int)
  next
    case False
    then have q: "q = 1 / of_int (2 ^ nat (52 - e))" unfolding q_def by (intro quantum_small) simp
    have "\<bar>x\<bar> / q = of_int (k * 2 ^ nat (52 - e))"
      using pos by (simp add: q k)
    then have "round_half_even (\<bar>x\<bar> / q) = k * 2 ^ nat (52 - e)"
      by (simp only: round_half_even_of_int)
    then have "r = of_int (k * 2 ^ nat (52 - e)) * q"
      by (simp only: r_def)
    then have "r = x" by (simp add: q k)
    then show ?thesis using assms(1) by simp
  qed
  with td r0 show ?thesis by auto
qed

lemma to_double_exact:
  assumes "whole (2 ^ k * x)" and "1 \<le> x" and "x < 2 ^ (53 - k)" and "k \<le> 52"
  shows "to_double x = Fin x"
proof -
  have pos: "0 < x" using assms(2) by simp
  define e where "e = floor_log2 x"
  have e: "e = bitlen \<lfloor>x\<rfloor> - 1" using assms(2) by (simp add: e_def floor_log2_def)
  have fl1: "1 \<le> \<lfloor>x\<rfloor>" using assms(2) by simp
  have "\<lfloor>x\<rfloor> < 2 ^ (53 - k)" using assms(3) by (simp add: floor_less_iff)
  then have "bitlen \<lfloor>x\<rfloor> \<le> int (53 - k)"
    by (simp add: bitlen_le_iff_power)
  then have eu: "e \<le> 52 - int k" using e assms(4) by simp
  have "1 \<le> bitlen \<lfloor>x\<rfloor>" using fl1 by (simp add: bitlen_ge_iff_power)
  then have el: "0 \<le> e" using e by simp
  then have emax: "max e (- 1022) = e" by simp
  define m where "m = nat (52 - e)"
  have mk: "k \<le> m" using eu el by (simp add: m_def)
  have q: "(2::rat) powi (e - 52) = 1 / of_int (2 ^ m)"
  proof (cases "e < 52")
    case True
    then show ?thesis unfolding m_def by (rule quantum_small)
  next
    case False
    with eu have "e = 52" by simp
    then show ?thesis by (simp add: m_def)
  qed
  from assms(1) obtain j where j: "2 ^ k * x = of_int j" using whole_obtain by blast
  have "x * 2 ^ m = (2 ^ k * x) * 2 ^ (m - k)"
    using mk by (simp add: power_add [symmetric] mult.assoc mult.commute mult.left_commute)
  also have "\<dots> = of_int (j * 2 ^ (m - k))" by (simp add: j)
  finally have xm: "x * 2 ^ m = of_int (j * 2 ^ (m - k))" .
  have div: "x / (2 powi (e - 52)) = of_int (j * 2 ^ (m - k))"
    using xm by (simp add: q)
  have "of_int (j * 2 ^ (m - k)) / 2 ^ m = x"
    using xm by (simp add: field_simps)
  moreover have "round_half_even (x / (2 powi (e - 52))) = j * 2 ^ (m - k)"
    by (simp only: div round_half_even_of_int)
  ultimately have r: "of_int (round_half_even (x / (2 powi (e - 52)))) * (2 powi (e - 52)) = x"
    by (simp only: q) simp
  have small: "\<not> (2::rat) ^ 1024 \<le> x"
  proof -
    have "x < 2 ^ 53" using assms(3) power_increasing [of "53 - k" 53 "2::rat"] by simp
    also have "\<dots> \<le> (2::rat) ^ 1024" by (rule power_increasing) simp_all
    finally show ?thesis by simp
  qed
  show ?thesis
    using pos r small by (simp add: to_double_def Let_def e_def [symmetric] emax)
qed

lemma to_double_safe: "whole x \<Longrightarrow> 0 \<le> x \<Longrightarrow> x < 2 ^ 53 \<Longrightarrow> to_double x = Fin x"
proof (cases "x = 0")
  case True
  then show ?thesis by (simp add: to_double_def)
next
  case False
  assume w: "whole x" and "0 \<le> x" and u: "x < 2 ^ 53"
  with False have "0 < x" by simp
  moreover from w obtain k where "x = of_int k" using whole_obtain by blast
  ultimately have "1 \<le> x" by simp
  with w u show ?thesis using to_double_exact [of 0 x] by simp
qed

lemma to_double_numeral: "numeral n < (2::rat) ^ 53 \<Longrightarrow> to_double (numeral n) = Fin (numeral n)"
  using to_double_safe [of "numeral n"] by (simp add: whole_def)

lemma to_double_one: "to_double 1 = Fin 1"
  using to_double_safe [of 1] by (simp add: whole_def)

lemma to_double_zero: "to_double 0 = Fin 0"
  by (simp add: to_double_def)

text \<open>
  The exponent is the right one, a magnitude of \<open>2^1024\<close> or more overflows, and a tie
  goes to the even significand: \<open>2^53 + 1\<close> is rounded to \<open>2^53\<close>.
\<close>

lemma round_half_even_ge_floor: "\<lfloor>y\<rfloor> \<le> round_half_even y"
  by (simp add: round_half_even_def Let_def)

lemma floor_log2_bounds:
  assumes "0 < a"
  shows "2 powi floor_log2 a \<le> a \<and> a < 2 powi (floor_log2 a + 1)"
proof (cases "1 \<le> a")
  case True
  define n where "n = \<lfloor>a\<rfloor>"
  have n: "0 < n" using True by (simp add: n_def)
  have e: "floor_log2 a = bitlen n - 1" using True by (simp add: floor_log2_def n_def)
  have "1 \<le> bitlen n" using n by (simp add: bitlen_ge_iff_power)
  then have k: "0 < bitlen n" by simp
  from bitlen_bounds [OF n] have b: "2 ^ nat (bitlen n - 1) \<le> n" "n < 2 ^ nat (bitlen n)"
    by simp_all
  have "(2::rat) powi (bitlen n - 1) = of_int (2 ^ nat (bitlen n - 1))"
    using k by (simp add: power_int_def)
  also have "\<dots> \<le> of_int n" using b(1) by (simp only: of_int_le_iff)
  also have "\<dots> \<le> a" by (simp add: n_def)
  finally have lower: "2 powi floor_log2 a \<le> a" by (simp add: e)
  have "n + 1 \<le> 2 ^ nat (bitlen n)" using b(2) by simp
  then have "(of_int (n + 1) :: rat) \<le> of_int (2 ^ nat (bitlen n))"
    by (simp only: of_int_le_iff)
  moreover have "a < of_int (n + 1)" unfolding n_def by linarith
  ultimately have "a < of_int (2 ^ nat (bitlen n))" by simp
  also have "\<dots> = (2::rat) powi (bitlen n)" using k by (simp add: power_int_def)
  finally have "a < 2 powi (floor_log2 a + 1)" by (simp add: e)
  with lower show ?thesis by simp
next
  case False
  define m where "m = \<lceil>1 / a\<rceil> - 1"
  define k where "k = nat (bitlen m)"
  have inv: "1 < 1 / a" using assms False by simp
  then have "1 < \<lceil>1 / a\<rceil>" by (simp add: less_ceiling_iff)
  then have m: "0 < m" by (simp add: m_def)
  have e: "floor_log2 a = - int k" using False bitlen_nonneg [of m]
    by (simp add: floor_log2_def m_def k_def)
  have "1 \<le> bitlen m" using m by (simp add: bitlen_ge_iff_power)
  then have kpos: "0 < k" by (simp add: k_def)
  have km: "nat (bitlen m - 1) = k - 1" unfolding k_def by arith
  from bitlen_bounds [OF m] have b: "2 ^ (k - 1) \<le> m" "m < 2 ^ k"
    unfolding km k_def [symmetric] by simp_all
  have "1 / a \<le> of_int (m + 1)" unfolding m_def by simp
  also have "\<dots> \<le> of_int (2 ^ k)" using b(2) by (simp only: of_int_le_iff)
  finally have "1 / a \<le> 2 ^ k" by simp
  then have "1 \<le> 2 ^ k * a" using assms by (simp add: field_simps)
  then have "1 / 2 ^ k \<le> a" by (simp add: field_simps)
  moreover have "(2::rat) powi (- int k) = 1 / 2 ^ k"
    by (simp add: power_int_minus field_simps)
  ultimately have lower: "2 powi floor_log2 a \<le> a" by (simp add: e)
  have "(of_int (2 ^ (k - 1)) :: rat) \<le> of_int m" using b(1) by (simp only: of_int_le_iff)
  also have "of_int m < 1 / a" unfolding m_def by linarith
  finally have "2 ^ (k - 1) < 1 / a" by simp
  then have "2 ^ (k - 1) * a < 1" using assms by (simp add: field_simps)
  then have "a < 1 / 2 ^ (k - 1)" by (simp add: field_simps)
  moreover have "(2::rat) powi (- int k + 1) = 1 / 2 ^ (k - 1)"
  proof -
    have eq: "- int k + 1 = - int (k - 1)" using kpos by simp
    have "(2::rat) powi (- int (k - 1)) = inverse (2 powi int (k - 1))"
      by (rule power_int_minus)
    also have "\<dots> = 1 / 2 ^ (k - 1)"
      by (simp only: power_int_of_nat inverse_eq_divide)
    finally show ?thesis unfolding eq .
  qed
  ultimately have "a < 2 powi (floor_log2 a + 1)" by (simp add: e)
  with lower show ?thesis by simp
qed

lemma to_double_overflow:
  assumes "2 ^ 1024 \<le> x"
  shows "to_double x = PosInf"
proof -
  have big: "(1::rat) \<le> 2 ^ 1024" by simp
  have one: "1 \<le> x" using assms big by (rule order_trans [rotated])
  then have pos: "0 < x" by simp
  define e where "e = floor_log2 x"
  have "(2::rat) powi 1024 \<le> x" using assms by simp
  also have "x < 2 powi (e + 1)" using floor_log2_bounds [OF pos] by (simp add: e_def)
  finally have lt: "(2::rat) powi 1024 < 2 powi (e + 1)" .
  have "1024 < e + 1"
  proof (rule ccontr)
    assume "\<not> 1024 < e + 1"
    then have "e + 1 \<le> 1024" by simp
    then have "(2::rat) powi (e + 1) \<le> 2 powi 1024"
      by (intro power_int_increasing) simp_all
    with lt show False by linarith
  qed
  then have e: "1024 \<le> e" by simp
  then have emax: "max e (- 1022) = e" by simp
  define q where "q = (2::rat) powi (e - 52)"
  have qpos: "0 < q" by (simp add: q_def)
  have "2 powi e \<le> x" using floor_log2_bounds [OF pos] by (simp add: e_def)
  moreover have "(2::rat) powi e = 2 ^ 52 * q"
    unfolding q_def by (simp add: power_int_diff)
  ultimately have "2 ^ 52 \<le> x / q" using qpos by (simp add: field_simps)
  then have "(of_int (2 ^ 52) :: rat) \<le> x / q" by simp
  then have "2 ^ 52 \<le> \<lfloor>x / q\<rfloor>" by (simp only: le_floor_iff)
  then have "2 ^ 52 \<le> round_half_even (x / q)"
    using round_half_even_ge_floor [of "x / q"] by linarith
  then have "(of_int (2 ^ 52) :: rat) \<le> of_int (round_half_even (x / q))"
    by (simp only: of_int_le_iff)
  then have "2 ^ 52 * q \<le> of_int (round_half_even (x / q)) * q"
    using qpos by simp
  moreover have "(2::rat) ^ 1024 \<le> 2 ^ 52 * q"
  proof -
    have "(2::rat) powi 1024 \<le> 2 powi e" using e by (intro power_int_increasing) simp_all
    also have "\<dots> = 2 ^ 52 * q" unfolding q_def by (simp add: power_int_diff)
    finally show ?thesis by simp
  qed
  ultimately have "2 ^ 1024 \<le> of_int (round_half_even (x / q)) * q" by linarith
  then show ?thesis
    using pos by (simp add: to_double_def Let_def e_def [symmetric] emax q_def [symmetric])
qed

lemma to_double_ties_to_even: "to_double 9007199254740993 = Fin 9007199254740992"
proof -
  have "bitlen 9007199254740993 = 54"
    using bitlen_twopow_add_eq [of 1 53] by simp
  then have b: "floor_log2 9007199254740993 = 53"
    by (simp add: floor_log2_def)
  have "round_half_even (9007199254740993 / 2) = 4503599627370496"
    by (simp add: round_half_even_def Let_def floor_rat)
  then show ?thesis
    by (simp add: to_double_def b Let_def)
qed

lemma to_double_nine_halves: "to_double (9 / 2) = Fin (9 / 2)"
  using to_double_exact [of 1 "9 / 2"] by (simp add: whole_def)

lemmas to_double_small = to_double_numeral to_double_one to_double_zero

section \<open>POST /create-order: amount and statuses\<close>

lemma create_order_world: "snd (post_create_order ext b w) = w"
  by (simp add: post_create_order_def Let_def
      split: jsval.splits sum.splits provider_outcome.splits option.splits)

text \<open>
  C1, as amended. For a finite positive amount \<open>a\<close>, a non-empty item array from which the
  provider request can be built (no \<^verbatim>\<open>null\<close> entry, no title or quantity whose conversion
  to a string throws), credentials that resolve, the key id set in the environment and a
  provider response carrying an identifier: the route answers 400 when \<open>a\<close> rounds to zero
  (\<open>a < 1/2\<close>), and otherwise succeeds with the provider's order id and the amount
  \<^verbatim>\<open>Math.round(a)\<close>, which is \<open>a\<close> itself when \<open>a\<close> is a whole number. No state changes.
\<close>

theorem create_order_amount:
  assumes "c_amount b = JNum (Fin a)" and "0 < a"
    and "c_items b = JArr xs" and "xs \<noteq> []"
    and "getRazorpayInstance w = Inr rzp"
    and "env_RAZORPAY_KEY_ID w = Some keyId" and "keyId \<noteq> []"
    and "create_request ext b xs (Math_round (Fin a)) = Inr rq"
    and "orders_create ext rzp rq = ProviderReturns ro"
    and "truthy (get_prop ro ''id'')"
  shows "post_create_order ext b w =
      (if a < 1 / 2 then (failure 400 ''Amount must be greater than zero'', w)
       else (\<lparr>status = 200,
              body = OrderCreated (get_prop ro ''id'') (Math_round (Fin a))
                (js_or (get_prop ro ''currency'') (JStr ''INR'')) keyId\<rparr>, w))
    \<and> (whole a \<longrightarrow> Math_round (Fin a) = Fin a)"
proof -
  have amt: "parseFloat ext (c_amount b) = Inr (Fin a)"
    using assms(1) by (simp add: parseFloat_def)
  have pos: "\<not> num_le (Fin a) (Fin 0)"
    using assms(2) by (simp add: num_le_def)
  have ro: "truthy ro"
    using assms(10) by (rule truthy_get_prop)
  have "post_create_order ext b w =
      (if a < 1 / 2 then (failure 400 ''Amount must be greater than zero'', w)
       else (\<lparr>status = 200,
              body = OrderCreated (get_prop ro ''id'') (Math_round (Fin a))
                (js_or (get_prop ro ''currency'') (JStr ''INR'')) keyId\<rparr>, w))"
    unfolding post_create_order_def Let_def amt
    using pos ro round_positive [of a] assms(3-10) by (simp del: Math_round.simps)
  then show ?thesis using round_whole by blast
qed

theorem create_order_amount_witness:
  "post_create_order sample_ext
     (sample_create (JNum (Fin 49900)) (JArr [line_item ''P1'' JUndefined (JNum (Fin 2))]))
     sample_world
   = (\<lparr>status = 200,
       body = OrderCreated (JStr ''order_1'') (Fin 49900) (JStr ''INR'') ''rzp_key''\<rparr>,
      sample_world)"
  using create_order_amount [of
      "sample_create (JNum (Fin 49900)) (JArr [line_item ''P1'' JUndefined (JNum (Fin 2))])"
      49900 "[line_item ''P1'' JUndefined (JNum (Fin 2))]" sample_world
      "(JStr ''rzp_key'', JStr ''secret'')" "''rzp_key''" sample_ext
      "\<lparr>rq_amount = Fin 49900, rq_currency = JStr ''INR'', rq_receipt = ''order_?'',
        rq_notes_items = ''item x?'', rq_notes_appliedCoupon = JStr ''none''\<rparr>"
      "JObj [(''id'', JStr ''order_1''), (''currency'', JStr ''INR'')]"]
  by (simp add: sample_create_def sample_world_def sample_ext_def line_item_def
      getRazorpayInstance_def js_or_def env_value_def create_request_def notes_items_def
      nullish_def js_String_def whole_def floor_rat)

text \<open>
  The claim as stated fails: the amount 2.5 comes back as 3, and the amount 0.25 is
  rejected with status 400.
\<close>

theorem create_order_amount_counterexample:
  "post_create_order sample_ext
     (sample_create (JNum (Fin (5 / 2))) (JArr [line_item ''P1'' JUndefined (JNum (Fin 2))]))
     sample_world
   = (\<lparr>status = 200,
       body = OrderCreated (JStr ''order_1'') (Fin 3) (JStr ''INR'') ''rzp_key''\<rparr>, sample_world)
   \<and> Fin 3 \<noteq> Fin (5 / 2)
   \<and> post_create_order sample_ext
     (sample_create (JNum (Fin (1 / 4))) (JArr [line_item ''P1'' JUndefined (JNum (Fin 2))]))
     sample_world
   = (\<lparr>status = 400, body = Failure ''Amount must be greater than zero''\<rparr>, sample_world)"
  by (simp add: post_create_order_def sample_create_def sample_world_def sample_ext_def
      line_item_def parseFloat_def num_le_def getRazorpayInstance_def js_or_def env_value_def
      create_request_def notes_items_def nullish_def failure_def floor_rat)

text \<open>
  The statuses of the route for an amount whose conversion does not throw. The route
  changes no state, whatever it answers: an amount that does not parse to a finite
  positive number gives 400; otherwise a missing or empty item array gives 400; otherwise
  credentials that do not resolve give 500; otherwise, for an amount that does not round
  to zero, a failure to create the remote order (the request cannot be built, or the
  provider call throws) gives 502, and a provider response without an identifier gives
  502.
\<close>

lemma create_order_statuses:
  assumes "parseFloat ext (c_amount b) = Inr parsedAmount"
    and "amountInPaise = Math_round parsedAmount"
    and "r = post_create_order ext b w"
  shows "snd r = w
    \<and> (\<not> isFinite parsedAmount \<or> num_le parsedAmount (Fin 0) \<longrightarrow> status (fst r) = 400)
    \<and> (isFinite parsedAmount \<and> \<not> num_le parsedAmount (Fin 0) \<longrightarrow>
         (item_payload (c_items b) = None \<longrightarrow> status (fst r) = 400)
       \<and> (\<forall>xs. item_payload (c_items b) = Some xs \<longrightarrow>
            (\<forall>e. getRazorpayInstance w = Inl e \<longrightarrow> status (fst r) = 500)
          \<and> (\<forall>rzp. getRazorpayInstance w = Inr rzp \<and> \<not> num_le amountInPaise (Fin 0) \<longrightarrow>
               (\<forall>e. create_request ext b xs amountInPaise = Inl e \<longrightarrow> status (fst r) = 502)
             \<and> (\<forall>rq. create_request ext b xs amountInPaise = Inr rq \<longrightarrow>
                  (orders_create ext rzp rq = ProviderThrows \<longrightarrow> status (fst r) = 502)
                \<and> (\<forall>ro. orders_create ext rzp rq = ProviderReturns ro
                        \<and> (\<not> truthy ro \<or> \<not> truthy (get_prop ro ''id''))
                      \<longrightarrow> status (fst r) = 502)))))"
proof -
  have st: "snd r = w"
    unfolding assms(3) by (rule create_order_world)
  have rest: "?thesis" if "snd r = w"
    using that assms(1) unfolding assms(2,3)
    by (auto simp: post_create_order_def Let_def failure_def item_payload_Some item_payload_None
        split: jsval.splits)
  from st rest show ?thesis by blast
qed

text \<open>
  C5. The claim fails on an amount whose conversion throws (an object with a key
  \<^verbatim>\<open>toString\<close> of its own, as in \<^verbatim>\<open>{"toString": 1}\<close>). \<^verbatim>\<open>parseFloat(amount)\<close> at line 36 stands
  outside the inner \<^verbatim>\<open>try\<close> blocks, so the TypeError reaches the outer \<^verbatim>\<open>catch\<close>: the
  invalid amount is answered with 500 and the message of the error, not with 400.
\<close>

theorem create_order_unconvertible_amount:
  assumes "\<not> convertible (c_amount b)"
  shows "post_create_order ext b w
    = (\<lparr>status = 500, body = Failure (message_or ext TypeError ''Failed to create order'')\<rparr>, w)"
proof -
  have "parseFloat ext (c_amount b) = Inl TypeError"
    using assms by (cases "c_amount b") (simp_all add: parseFloat_def js_ToString_def)
  then show ?thesis
    by (simp add: post_create_order_def failure_def)
qed

theorem create_order_unconvertible_amount_witness:
  "post_create_order sample_ext
     (sample_create (JObj [(''toString'', JNum (Fin 1))])
        (JArr [line_item ''P1'' JUndefined (JNum (Fin 2))]))
     sample_world
   = (\<lparr>status = 500, body = Failure ''TypeError''\<rparr>, sample_world)"
  using create_order_unconvertible_amount [of
      "sample_create (JObj [(''toString'', JNum (Fin 1))])
         (JArr [line_item ''P1'' JUndefined (JNum (Fin 2))])" sample_ext sample_world]
  by (simp add: sample_create_def message_or_def error_text_def sample_ext_def)

section \<open>The inventory loop and the two checkout routes\<close>

lemma findIndex_None: "findIndex P xs = None \<longleftrightarrow> (\<forall>x\<in>set xs. \<not> P x)"
  by (induction xs) auto

lemma findIndex_Some: "findIndex P xs = Some i \<Longrightarrow> i < length xs \<and> P (xs ! i)"
  by (induction xs arbitrary: i) (auto split: if_splits)

lemma decrementInventory_append:
  "decrementInventory ext (xs @ ys) ps =
     (case decrementInventory ext xs ps of
        (ps', Continue) \<Rightarrow> decrementInventory ext ys ps'
      | (ps', r) \<Rightarrow> (ps', r))"
  by (induction xs arbitrary: ps) (auto split: prod.splits step.splits)

lemma notify_products: "products (notify ord u w) = products w"
  by (simp add: notify_def Let_def)

lemma notify_orders: "orders (notify ord u w) = orders w"
  by (simp add: notify_def Let_def)

lemma verify_after_gates:
  assumes "verify_reaches_loop ext b w xs"
  shows "post_verify ext u b w =
     (case decrementInventory ext xs (products w) of
        (ps, Return r) \<Rightarrow> (r, w\<lparr>products := ps\<rparr>)
      | (ps, Throw e) \<Rightarrow>
          (failure 500 (message_or ext e ''Payment verification failed''), w\<lparr>products := ps\<rparr>)
      | (ps, Continue) \<Rightarrow>
          (\<lparr>status = 200,
            body = Verified ''Payment verified successfully'' (Some (verify_order u b))
              (v_razorpayPaymentId b) (v_razorpayOrderId b)\<rparr>,
           notify (verify_order u b) u (w\<lparr>products := ps, orders := orders w @ [verify_order u b]\<rparr>)))"
  using assms
  by (auto simp: verify_reaches_loop_def post_verify_def Let_def split: sum.splits)

lemma manual_after_gates:
  assumes "manual_reaches_loop ext b xs"
  shows "post_manual ext u b w =
     (case decrementInventory ext xs (products w) of
        (ps, Return r) \<Rightarrow> (r, w\<lparr>products := ps\<rparr>)
      | (ps, Throw e) \<Rightarrow>
          (failure 500 (message_or ext e ''Failed to process payment''), w\<lparr>products := ps\<rparr>)
      | (ps, Continue) \<Rightarrow>
          (\<lparr>status = 200,
            body = ManualAccepted (manual_order u b)
              ''Order created successfully. Your payment is pending verification.''\<rparr>,
           notify (manual_order u b) u (w\<lparr>products := ps, orders := orders w @ [manual_order u b]\<rparr>)))"
  using assms
  by (auto simp: manual_reaches_loop_def post_manual_def Let_def item_payload_def
      split: jsval.splits if_splits sum.splits)

lemma decrementItem_flat:
  assumes "\<not> nullish item"
    and "productId = js_or (get_prop item ''id'') (get_prop item ''productId'')"
    and "truthy productId" and "ps productId = Some p" and "\<not> trackInventoryBySize p"
  shows "decrementItem ext item ps = decrementFlat ext item productId p ps"
  using assms by (simp add: decrementItem_def Let_def split: option.splits)

lemma decrementItem_size:
  assumes "\<not> nullish item"
    and "productId = js_or (get_prop item ''id'') (get_prop item ''productId'')"
    and "truthy productId" and "ps productId = Some p" and "trackInventoryBySize p"
    and "truthy (get_prop item ''size'')" and "sizeInventory p = Some sizeInv"
  shows "decrementItem ext item ps = decrementSize ext item productId p sizeInv ps"
  using assms by (simp add: decrementItem_def Let_def)


lemma requestedQty_nat:
  "get_prop item ''qty'' = JNum (Fin (of_nat n)) \<Longrightarrow>
   requestedQty ext item = Inr (if n = 0 then Fin 1 else Fin (of_nat n))"
  by (simp add: requestedQty_def js_or_def js_Number_def)

lemma current_stock_nat:
  "js_or (JNum (Fin (of_nat q))) (JNum (Fin 0)) = JNum (Fin (of_nat q))"
  by (simp add: js_or_def)


lemma sample_P1:
  "sample_products (JStr ''P1'') = Some \<lparr>title = ''Shirt'', trackInventoryBySize = False,
     stock = JNum (Fin 5), sizeInventory = None\<rparr>"
  by (simp add: sample_products_def)

lemma sample_P2:
  "sample_products (JStr ''P2'') = Some \<lparr>title = ''Jeans'', trackInventoryBySize = True,
     stock = JNum (Fin 0),
     sizeInventory = Some [\<lparr>code = ''S'', qty = JNum (Fin 1)\<rparr>, \<lparr>code = ''M'', qty = JNum (Fin 2)\<rparr>]\<rparr>"
  by (simp add: sample_products_def)

lemma sample_P0:
  "sample_products (JStr ''P0'') = Some \<lparr>title = ''Cap'', trackInventoryBySize = False,
     stock = JNum (Fin 0), sizeInventory = None\<rparr>"
  by (simp add: sample_products_def)

lemma sample_secret: "resolveKeySecret sample_world = Inr ''secret''"
  by (simp add: resolveKeySecret_def getRazorpayInstance_def sample_world_def js_or_def
      env_value_def)

lemma sample_pin: "pinOk ''411001''"
  by (simp add: pinOk_def is_digit_def)

lemma sample_verify_reaches:
  "xs \<noteq> [] \<Longrightarrow>
   verify_reaches_loop sample_ext (sample_verify (JArr xs) (JStr ''411001'')) sample_world xs"
  by (simp add: verify_reaches_loop_def sample_verify_def sample_secret verifySignature_def
      sample_ext_def js_String_def js_ToString_def missing_or_invalid_def js_trim_def
      is_js_space_def item_payload_def sample_pin)

lemma sample_manual_reaches:
  "xs \<noteq> [] \<Longrightarrow> manual_reaches_loop sample_ext (sample_manual (JArr xs) (JStr ''411001'')) xs"
  by (simp add: manual_reaches_loop_def sample_manual_def transaction_check_def
      js_String_def js_ToString_def js_trim_def is_js_space_def item_payload_def sample_pin)

lemma products_sample_world: "products sample_world = sample_products"
  by (simp add: sample_world_def)

lemma line_item_props:
  "\<not> nullish (line_item pid sz q)"
  "get_prop (line_item pid sz q) ''id'' = JUndefined"
  "get_prop (line_item pid sz q) ''productId'' = JStr pid"
  "get_prop (line_item pid sz q) ''size'' = sz"
  "get_prop (line_item pid sz q) ''qty'' = q"
  by (simp_all add: line_item_def nullish_def)

lemma requestedQty_line_item:
  "requestedQty ext (line_item pid sz (JNum (Fin r))) = Inr (if r = 0 then Fin 1 else Fin r)"
  by (simp add: requestedQty_def line_item_props js_or_def js_Number_def)

lemma decrementItem_line_item:
  "pid \<noteq> [] \<Longrightarrow> ps (JStr pid) = Some p \<Longrightarrow>
   decrementItem ext (line_item pid sz q) ps =
     (if trackInventoryBySize p
      then (case sizeInventory p of
              Some sizeInv \<Rightarrow>
                if truthy sz then decrementSize ext (line_item pid sz q) (JStr pid) p sizeInv ps
                else (ps, Continue)
            | None \<Rightarrow> (ps, Continue))
      else decrementFlat ext (line_item pid sz q) (JStr pid) p ps)"
  by (simp add: decrementItem_def line_item_props js_or_def Let_def split: option.splits)

lemma sample_ids:
  "\<not> missing_or_invalid (JStr ''order_1'')" "\<not> missing_or_invalid (JStr ''pay_1'')"
  "\<not> missing_or_invalid (JStr ''secretorder_1|pay_1'')"
  by (simp_all add: missing_or_invalid_def js_trim_def is_js_space_def)

section \<open>Insufficient stock in the middle of a batch\<close>

text \<open>
  C2. Let the next item of the loop refer to a product \<open>p\<close> of the store \<open>mid\<close> whose
  available quantity is below the requested one: the flat stock, or the quantity of the
  size the item names. Then the loop stops at this item with status 409, a message naming
  the product (and the size code), the item's product id and the available quantity, and
  leaves \<open>mid\<close> as it is. So when the earlier items \<open>pre\<close> of a request have been processed,
  leaving \<open>mid\<close> with every decrement they made, POST /verify answers that 409 and keeps
  \<open>mid\<close> whenever the request passes the checks that route makes before its loop, and so
  does POST /manual under its own checks: the earlier decrements stay.
\<close>

theorem insufficient_stock_keeps_earlier_decrements:
  assumes item: "\<not> nullish item"
      "productId = js_or (get_prop item ''id'') (get_prop item ''productId'')"
      "truthy productId" "mid productId = Some p"
    and short: "if trackInventoryBySize p
      then truthy (get_prop item ''size'') \<and> sizeInventory p = Some sizeInv
         \<and> findIndex (\<lambda>s. JStr (code s) = get_prop item ''size'') sizeInv = Some i
         \<and> available = qty (sizeInv ! i)
         \<and> message = ''Insufficient stock for '' @ title p @ '' size '' @ code (sizeInv ! i)
      else available = js_or (stock p) (JNum (Fin 0))
         \<and> message = ''Insufficient stock for '' @ title p"
    and less: "requestedQty ext item = Inr requested" "js_Number ext available = Inr current"
      "num_lt current requested"
  shows "decrementInventory ext (item # rest) mid =
      (mid, Return \<lparr>status = 409, body = StockFailure message productId available\<rparr>)
    \<and> (decrementInventory ext pre (products w) = (mid, Continue)
         \<and> verify_reaches_loop ext vb w (pre @ item # rest) \<longrightarrow>
       post_verify ext u vb w =
         (\<lparr>status = 409, body = StockFailure message productId available\<rparr>, w\<lparr>products := mid\<rparr>))
    \<and> (decrementInventory ext pre (products w) = (mid, Continue)
         \<and> manual_reaches_loop ext mb (pre @ item # rest) \<longrightarrow>
       post_manual ext u mb w =
         (\<lparr>status = 409, body = StockFailure message productId available\<rparr>, w\<lparr>products := mid\<rparr>))"
proof -
  have step: "decrementItem ext item mid =
      (mid, Return \<lparr>status = 409, body = StockFailure message productId available\<rparr>)"
  proof (cases "trackInventoryBySize p")
    case True
    with short have s: "truthy (get_prop item ''size'')" "sizeInventory p = Some sizeInv"
      "findIndex (\<lambda>s. JStr (code s) = get_prop item ''size'') sizeInv = Some i"
      "available = qty (sizeInv ! i)"
      "message = ''Insufficient stock for '' @ title p @ '' size '' @ code (sizeInv ! i)"
      by simp_all
    from findIndex_Some [OF s(3)] have "get_prop item ''size'' = JStr (code (sizeInv ! i))"
      by simp
    then have sz: "js_String ext (get_prop item ''size'') = code (sizeInv ! i)"
      by (simp add: js_String_def)
    have "decrementItem ext item mid = decrementSize ext item productId p sizeInv mid"
      using item True s(1,2) by (rule decrementItem_size)
    also have "\<dots> = (mid, Return \<lparr>status = 409, body = StockFailure message productId available\<rparr>)"
      using s(3,4,5) less sz by (simp add: decrementSize_def Let_def)
    finally show ?thesis .
  next
    case False
    with short have s: "available = js_or (stock p) (JNum (Fin 0))"
      "message = ''Insufficient stock for '' @ title p"
      by simp_all
    have "decrementItem ext item mid = decrementFlat ext item productId p mid"
      using item False by (rule decrementItem_flat)
    also have "\<dots> = (mid, Return \<lparr>status = 409, body = StockFailure message productId available\<rparr>)"
      using s less by (simp add: decrementFlat_def Let_def)
    finally show ?thesis .
  qed
  have loop: "decrementInventory ext (pre @ item # rest) (products w) =
      (mid, Return \<lparr>status = 409, body = StockFailure message productId available\<rparr>)"
    if "decrementInventory ext pre (products w) = (mid, Continue)"
    by (simp add: decrementInventory_append that step)
  have v: "post_verify ext u vb w =
         (\<lparr>status = 409, body = StockFailure message productId available\<rparr>, w\<lparr>products := mid\<rparr>)"
    if "decrementInventory ext pre (products w) = (mid, Continue)"
      "verify_reaches_loop ext vb w (pre @ item # rest)"
    by (simp add: verify_after_gates [OF that(2)] loop [OF that(1)])
  have m: "post_manual ext u mb w =
         (\<lparr>status = 409, body = StockFailure message productId available\<rparr>, w\<lparr>products := mid\<rparr>)"
    if "decrementInventory ext pre (products w) = (mid, Continue)"
      "manual_reaches_loop ext mb (pre @ item # rest)"
    by (simp add: manual_after_gates [OF that(2)] loop [OF that(1)])
  show ?thesis using v m by (simp add: step)
qed

theorem insufficient_stock_keeps_earlier_decrements_witness:
  "post_verify sample_ext sample_user
     (sample_verify (JArr [line_item ''P1'' JUndefined (JNum (Fin 2)),
                           line_item ''P1'' JUndefined (JNum (Fin 4))]) (JStr ''411001''))
     sample_world
   = (\<lparr>status = 409,
       body = StockFailure ''Insufficient stock for Shirt'' (JStr ''P1'') (JNum (Fin 3))\<rparr>,
      sample_world\<lparr>products := sample_products(JStr ''P1'' \<mapsto>
        \<lparr>title = ''Shirt'', trackInventoryBySize = False, stock = JNum (Fin 3),
         sizeInventory = None\<rparr>)\<rparr>)
   \<and> post_manual sample_ext sample_user
     (sample_manual (JArr [line_item ''P2'' (JStr ''S'') (JNum (Fin 1)),
                           line_item ''P2'' (JStr ''M'') (JNum (Fin 3))]) (JStr ''411001''))
     sample_world
   = (\<lparr>status = 409,
       body = StockFailure ''Insufficient stock for Jeans size M'' (JStr ''P2'') (JNum (Fin 2))\<rparr>,
      sample_world\<lparr>products := sample_products(JStr ''P2'' \<mapsto>
        \<lparr>title = ''Jeans'', trackInventoryBySize = True, stock = JNum (Fin 0),
         sizeInventory = Some [\<lparr>code = ''S'', qty = JNum (Fin 0)\<rparr>,
                               \<lparr>code = ''M'', qty = JNum (Fin 2)\<rparr>]\<rparr>)\<rparr>)"
proof -
  let ?first = "line_item ''P1'' JUndefined (JNum (Fin 2))"
  let ?second = "line_item ''P1'' JUndefined (JNum (Fin 4))"
  let ?p = "\<lparr>title = ''Shirt'', trackInventoryBySize = False, stock = JNum (Fin 3),
             sizeInventory = None\<rparr>"
  let ?mid = "sample_products(JStr ''P1'' \<mapsto> ?p)"
  have earlier: "decrementInventory sample_ext [?first] (products sample_world) = (?mid, Continue)"
    by (simp add: products_sample_world
        decrementItem_line_item [where ps = sample_products and pid = "''P1''", OF _ sample_P1]
        decrementFlat_def requestedQty_line_item js_or_def js_Number_def to_double_small)
  have short: "if trackInventoryBySize ?p
      then truthy (get_prop ?second ''size'') \<and> sizeInventory ?p = Some []
         \<and> findIndex (\<lambda>s. JStr (code s) = get_prop ?second ''size'') [] = Some 0
         \<and> JNum (Fin 3) = qty ([] ! 0)
         \<and> ''Insufficient stock for Shirt''
             = ''Insufficient stock for '' @ title ?p @ '' size '' @ code ([] ! 0)
      else JNum (Fin 3) = js_or (stock ?p) (JNum (Fin 0))
         \<and> ''Insufficient stock for Shirt'' = ''Insufficient stock for '' @ title ?p"
    by (simp add: js_or_def)
  have req: "requestedQty sample_ext ?second = Inr (Fin 4)"
    by (simp add: requestedQty_line_item)
  have cur: "js_Number sample_ext (JNum (Fin 3)) = Inr (Fin 3)"
    by (rule js_Number_JNum)
  have less: "num_lt (Fin 3) (Fin 4)" by simp
  have flat: "post_verify sample_ext sample_user
          (sample_verify (JArr ([?first] @ ?second # [])) (JStr ''411001'')) sample_world
        = (\<lparr>status = 409,
            body = StockFailure ''Insufficient stock for Shirt'' (JStr ''P1'') (JNum (Fin 3))\<rparr>,
           sample_world\<lparr>products := ?mid\<rparr>)"
    using insufficient_stock_keeps_earlier_decrements
      [where u = sample_user and productId = "JStr ''P1''" and rest = "[]" and mid = ?mid
         and pre = "[?first]" and w = sample_world
         and vb = "sample_verify (JArr ([?first] @ ?second # [])) (JStr ''411001'')",
       OF _ _ _ _ short req cur less] earlier sample_verify_reaches [of "[?first] @ ?second # []"]
    by (simp add: line_item_props js_or_def del: decrementInventory.simps)
  let ?small = "line_item ''P2'' (JStr ''S'') (JNum (Fin 1))"
  let ?medium = "line_item ''P2'' (JStr ''M'') (JNum (Fin 3))"
  let ?sizes = "[\<lparr>code = ''S'', qty = JNum (Fin 0)\<rparr>, \<lparr>code = ''M'', qty = JNum (Fin 2)\<rparr>]"
  let ?j = "\<lparr>title = ''Jeans'', trackInventoryBySize = True, stock = JNum (Fin 0),
             sizeInventory = Some ?sizes\<rparr>"
  let ?mid2 = "sample_products(JStr ''P2'' \<mapsto> ?j)"
  have earlier2: "decrementInventory sample_ext [?small] (products sample_world) = (?mid2, Continue)"
    by (simp add: products_sample_world
        decrementItem_line_item [where ps = sample_products and pid = "''P2''", OF _ sample_P2]
        decrementSize_def line_item_props requestedQty_line_item js_Number_def to_double_small)
  have short2: "if trackInventoryBySize ?j
      then truthy (get_prop ?medium ''size'') \<and> sizeInventory ?j = Some ?sizes
         \<and> findIndex (\<lambda>s. JStr (code s) = get_prop ?medium ''size'') ?sizes = Some 1
         \<and> JNum (Fin 2) = qty (?sizes ! 1)
         \<and> ''Insufficient stock for Jeans size M''
             = ''Insufficient stock for '' @ title ?j @ '' size '' @ code (?sizes ! 1)
      else JNum (Fin 2) = js_or (stock ?j) (JNum (Fin 0))
         \<and> ''Insufficient stock for Jeans size M'' = ''Insufficient stock for '' @ title ?j"
    by (simp add: line_item_props)
  have req2: "requestedQty sample_ext ?medium = Inr (Fin 3)"
    by (simp add: requestedQty_line_item)
  have cur2: "js_Number sample_ext (JNum (Fin 2)) = Inr (Fin 2)"
    by (rule js_Number_JNum)
  have less2: "num_lt (Fin 2) (Fin 3)" by simp
  have sized: "post_manual sample_ext sample_user
          (sample_manual (JArr ([?small] @ ?medium # [])) (JStr ''411001'')) sample_world
        = (\<lparr>status = 409,
            body = StockFailure ''Insufficient stock for Jeans size M'' (JStr ''P2'')
              (JNum (Fin 2))\<rparr>,
           sample_world\<lparr>products := ?mid2\<rparr>)"
    using insufficient_stock_keeps_earlier_decrements
      [where u = sample_user and productId = "JStr ''P2''" and rest = "[]" and mid = ?mid2
         and pre = "[?small]" and w = sample_world
         and mb = "sample_manual (JArr ([?small] @ ?medium # [])) (JStr ''411001'')",
       OF _ _ _ _ short2 req2 cur2 less2] earlier2
      sample_manual_reaches [of "[?small] @ ?medium # []"]
    by (simp add: line_item_props js_or_def del: decrementInventory.simps)
  from flat sized show ?thesis by simp
qed

section \<open>Verification without an item payload\<close>



section \<open>Exact and excessive requests on flat stock\<close>

text \<open>
  C6, as amended. For a flat-stock product with stock \<open>q\<close> and a single line item for it:
  with \<^verbatim>\<open>qty\<close> \<open>q\<close> and \<open>q \<ge> 1\<close>, POST /verify succeeds and leaves the stock at 0 whenever the
  request passes the checks that route makes before its loop, and so does POST /manual
  under its own checks; with \<^verbatim>\<open>qty\<close> \<open>q + 1\<close> (for every \<open>q \<ge> 0\<close>) each of them answers 409 with
  \<^verbatim>\<open>availableQty\<close> \<open>q\<close> and leaves the state as it was.
\<close>

theorem flat_stock_exact_and_excess:
  fixes q n :: nat
  assumes item: "\<not> nullish item"
      "productId = js_or (get_prop item ''id'') (get_prop item ''productId'')"
      "truthy productId" "products w productId = Some p" "\<not> trackInventoryBySize p"
    and stock: "stock p = JNum (Fin (of_nat q))"
    and qty: "get_prop item ''qty'' = JNum (Fin (of_nat n))"
  shows "(n = q \<and> 1 \<le> q \<longrightarrow>
        (verify_reaches_loop ext vb w [item] \<longrightarrow>
           status (fst (post_verify ext u vb w)) = 200
         \<and> products (snd (post_verify ext u vb w))
             = (products w)(productId \<mapsto> p\<lparr>stock := JNum (Fin 0)\<rparr>))
      \<and> (manual_reaches_loop ext mb [item] \<longrightarrow>
           status (fst (post_manual ext u mb w)) = 200
         \<and> products (snd (post_manual ext u mb w))
             = (products w)(productId \<mapsto> p\<lparr>stock := JNum (Fin 0)\<rparr>)))
    \<and> (n = q + 1 \<longrightarrow>
        (verify_reaches_loop ext vb w [item] \<longrightarrow>
           post_verify ext u vb w =
             (\<lparr>status = 409,
               body = StockFailure (''Insufficient stock for '' @ title p) productId
                 (JNum (Fin (of_nat q)))\<rparr>, w))
      \<and> (manual_reaches_loop ext mb [item] \<longrightarrow>
           post_manual ext u mb w =
             (\<lparr>status = 409,
               body = StockFailure (''Insufficient stock for '' @ title p) productId
                 (JNum (Fin (of_nat q)))\<rparr>, w)))"
proof -
  have flat: "decrementItem ext item (products w) = decrementFlat ext item productId p (products w)"
    using item by (rule decrementItem_flat)
  have exact: "decrementInventory ext [item] (products w) =
      ((products w)(productId \<mapsto> p\<lparr>stock := JNum (Fin 0)\<rparr>), Continue)"
    if "n = q" "1 \<le> q"
    using that stock requestedQty_nat [OF qty, of ext]
    by (simp add: flat decrementFlat_def Let_def current_stock_nat js_Number_JNum to_double_zero)
  have excess: "decrementInventory ext [item] (products w) =
      (products w, Return \<lparr>status = 409,
         body = StockFailure (''Insufficient stock for '' @ title p) productId
           (JNum (Fin (of_nat q)))\<rparr>)"
    if "n = q + 1"
    using that stock requestedQty_nat [OF qty, of ext]
    by (simp add: flat decrementFlat_def Let_def current_stock_nat js_Number_JNum)
  have v200: "status (fst (post_verify ext u vb w)) = 200
         \<and> products (snd (post_verify ext u vb w))
             = (products w)(productId \<mapsto> p\<lparr>stock := JNum (Fin 0)\<rparr>)"
    if "n = q" "1 \<le> q" "verify_reaches_loop ext vb w [item]"
    by (simp add: verify_after_gates [OF that(3)] exact [OF that(1,2)] notify_products
        del: decrementInventory.simps)
  have m200: "status (fst (post_manual ext u mb w)) = 200
         \<and> products (snd (post_manual ext u mb w))
             = (products w)(productId \<mapsto> p\<lparr>stock := JNum (Fin 0)\<rparr>)"
    if "n = q" "1 \<le> q" "manual_reaches_loop ext mb [item]"
    by (simp add: manual_after_gates [OF that(3)] exact [OF that(1,2)] notify_products
        del: decrementInventory.simps)
  have v409: "post_verify ext u vb w =
             (\<lparr>status = 409,
               body = StockFailure (''Insufficient stock for '' @ title p) productId
                 (JNum (Fin (of_nat q)))\<rparr>, w)"
    if "n = q + 1" "verify_reaches_loop ext vb w [item]"
    by (simp add: verify_after_gates [OF that(2)] excess [OF that(1)]
        del: decrementInventory.simps)
  have m409: "post_manual ext u mb w =
             (\<lparr>status = 409,
               body = StockFailure (''Insufficient stock for '' @ title p) productId
                 (JNum (Fin (of_nat q)))\<rparr>, w)"
    if "n = q + 1" "manual_reaches_loop ext mb [item]"
    by (simp add: manual_after_gates [OF that(2)] excess [OF that(1)]
        del: decrementInventory.simps)
  show ?thesis using v200 m200 v409 m409 by blast
qed

theorem flat_stock_exact_and_excess_witness:
  "status (fst (post_verify sample_ext sample_user
      (sample_verify (JArr [line_item ''P1'' JUndefined (JNum (Fin 5))]) (JStr ''411001''))
      sample_world)) = 200
   \<and> products (snd (post_verify sample_ext sample_user
      (sample_verify (JArr [line_item ''P1'' JUndefined (JNum (Fin 5))]) (JStr ''411001''))
      sample_world)) (JStr ''P1'')
     = Some \<lparr>title = ''Shirt'', trackInventoryBySize = False, stock = JNum (Fin 0),
             sizeInventory = None\<rparr>
   \<and> post_manual sample_ext sample_user
      (sample_manual (JArr [line_item ''P1'' JUndefined (JNum (Fin 6))]) (JStr ''411001''))
      sample_world
     = (\<lparr>status = 409,
         body = StockFailure ''Insufficient stock for Shirt'' (JStr ''P1'') (JNum (Fin 5))\<rparr>,
        sample_world)"
proof -
  let ?five = "line_item ''P1'' JUndefined (JNum (Fin 5))"
  let ?six = "line_item ''P1'' JUndefined (JNum (Fin 6))"
  have five: "get_prop ?five ''qty'' = JNum (Fin (of_nat 5))"
    and six: "get_prop ?six ''qty'' = JNum (Fin (of_nat 6))"
    by (simp_all add: line_item_props)
  have stock: "stock \<lparr>title = ''Shirt'', trackInventoryBySize = False, stock = JNum (Fin 5),
      sizeInventory = None\<rparr> = JNum (Fin (of_nat 5))"
    by simp
  have p: "products sample_world (JStr ''P1'') = Some \<lparr>title = ''Shirt'',
      trackInventoryBySize = False, stock = JNum (Fin 5), sizeInventory = None\<rparr>"
    by (simp add: products_sample_world sample_P1)
  note exact = flat_stock_exact_and_excess
    [where u = sample_user and productId = "JStr ''P1''" and item = ?five and ext = sample_ext
       and vb = "sample_verify (JArr [?five]) (JStr ''411001'')",
     OF _ _ _ p _ stock five]
  note excess = flat_stock_exact_and_excess
    [where u = sample_user and productId = "JStr ''P1''" and item = ?six and ext = sample_ext
       and mb = "sample_manual (JArr [?six]) (JStr ''411001'')",
     OF _ _ _ p _ stock six]
  have a: "status (fst (post_verify sample_ext sample_user
        (sample_verify (JArr [?five]) (JStr ''411001'')) sample_world)) = 200
     \<and> products (snd (post_verify sample_ext sample_user
        (sample_verify (JArr [?five]) (JStr ''411001'')) sample_world))
       = (products sample_world)(JStr ''P1'' \<mapsto> \<lparr>title = ''Shirt'',
            trackInventoryBySize = False, stock = JNum (Fin 0), sizeInventory = None\<rparr>)"
    using exact sample_verify_reaches [of "[?five]"] by (simp add: line_item_props js_or_def)
  have b: "post_manual sample_ext sample_user
      (sample_manual (JArr [?six]) (JStr ''411001'')) sample_world
     = (\<lparr>status = 409,
         body = StockFailure ''Insufficient stock for Shirt'' (JStr ''P1'') (JNum (Fin 5))\<rparr>,
        sample_world)"
    using excess sample_manual_reaches [of "[?six]"] by (simp add: line_item_props js_or_def)
  from a b show ?thesis by simp
qed

text \<open>
  The claim as stated fails at \<open>q = 0\<close>: a request for \<^verbatim>\<open>qty\<close> 0 of a product with stock 0 is
  a request for 1 and is answered with 409.
\<close>

theorem flat_stock_exact_and_excess_counterexample:
  "post_verify sample_ext sample_user
      (sample_verify (JArr [line_item ''P0'' JUndefined (JNum (Fin 0))]) (JStr ''411001''))
      sample_world
     = (\<lparr>status = 409,
         body = StockFailure ''Insufficient stock for Cap'' (JStr ''P0'') (JNum (Fin 0))\<rparr>,
        sample_world)
   \<and> post_manual sample_ext sample_user
      (sample_manual (JArr [line_item ''P0'' JUndefined (JNum (Fin 0))]) (JStr ''411001''))
      sample_world
     = (\<lparr>status = 409,
         body = StockFailure ''Insufficient stock for Cap'' (JStr ''P0'') (JNum (Fin 0))\<rparr>,
        sample_world)"
proof -
  have loop: "decrementInventory sample_ext [line_item ''P0'' JUndefined (JNum (Fin 0))]
      (products sample_world)
    = (products sample_world, Return \<lparr>status = 409,
        body = StockFailure ''Insufficient stock for Cap'' (JStr ''P0'') (JNum (Fin 0))\<rparr>)"
    by (simp add: products_sample_world
        decrementItem_line_item [where ps = sample_products and pid = "''P0''", OF _ sample_P0]
        decrementFlat_def requestedQty_line_item js_or_def js_Number_def)
  show ?thesis
    by (simp add: verify_after_gates [OF sample_verify_reaches]
        manual_after_gates [OF sample_manual_reaches] loop del: decrementInventory.simps)
qed

section \<open>Items skipped on a product tracked by size\<close>

text \<open>
  C9. An item that refers to a product tracked by size, and that names no size or a size
  code that no entry of \<^verbatim>\<open>sizeInventory\<close> carries, changes nothing and raises no error, and
  the loop goes on with the remaining items. So when the earlier items \<open>pre\<close> of a request
  have left the store \<open>ps\<close>, POST /verify answers as the remaining items decide whenever
  the request passes the checks that route makes before its loop, and so does POST /manual
  under its own checks.
\<close>

theorem size_tracked_item_skipped:
  assumes item: "\<not> nullish item"
      "productId = js_or (get_prop item ''id'') (get_prop item ''productId'')"
      "truthy productId" "ps productId = Some p" "trackInventoryBySize p"
    and nosize: "\<not> truthy (get_prop item ''size'')
      \<or> (\<forall>sizeInv. sizeInventory p = Some sizeInv \<longrightarrow>
            (\<forall>s\<in>set sizeInv. JStr (code s) \<noteq> get_prop item ''size''))"
  shows "decrementItem ext item ps = (ps, Continue)
    \<and> decrementInventory ext (item # rest) ps = decrementInventory ext rest ps
    \<and> (decrementInventory ext pre (products w) = (ps, Continue)
         \<and> verify_reaches_loop ext vb w (pre @ item # rest) \<longrightarrow>
       post_verify ext u vb w =
         (case decrementInventory ext rest ps of
            (ps', Return r) \<Rightarrow> (r, w\<lparr>products := ps'\<rparr>)
          | (ps', Throw e) \<Rightarrow>
              (failure 500 (message_or ext e ''Payment verification failed''), w\<lparr>products := ps'\<rparr>)
          | (ps', Continue) \<Rightarrow>
              (\<lparr>status = 200,
                body = Verified ''Payment verified successfully'' (Some (verify_order u vb))
                  (v_razorpayPaymentId vb) (v_razorpayOrderId vb)\<rparr>,
               notify (verify_order u vb) u
                 (w\<lparr>products := ps', orders := orders w @ [verify_order u vb]\<rparr>))))
    \<and> (decrementInventory ext pre (products w) = (ps, Continue)
         \<and> manual_reaches_loop ext mb (pre @ item # rest) \<longrightarrow>
       post_manual ext u mb w =
         (case decrementInventory ext rest ps of
            (ps', Return r) \<Rightarrow> (r, w\<lparr>products := ps'\<rparr>)
          | (ps', Throw e) \<Rightarrow>
              (failure 500 (message_or ext e ''Failed to process payment''), w\<lparr>products := ps'\<rparr>)
          | (ps', Continue) \<Rightarrow>
              (\<lparr>status = 200,
                body = ManualAccepted (manual_order u mb)
                  ''Order created successfully. Your payment is pending verification.''\<rparr>,
               notify (manual_order u mb) u
                 (w\<lparr>products := ps', orders := orders w @ [manual_order u mb]\<rparr>))))"
proof -
  have none: "findIndex (\<lambda>s. JStr (code s) = get_prop item ''size'') sizeInv = None"
    if "truthy (get_prop item ''size'')" "sizeInventory p = Some sizeInv" for sizeInv
    using that nosize by (simp add: findIndex_None)
  have skip: "decrementItem ext item ps = (ps, Continue)"
    using item none
    by (cases "sizeInventory p") (simp_all add: decrementItem_def Let_def decrementSize_def)
  have loop: "decrementInventory ext (pre @ item # rest) (products w) = decrementInventory ext rest ps"
    if "decrementInventory ext pre (products w) = (ps, Continue)"
    by (simp add: decrementInventory_append that skip)
  have v: "post_verify ext u vb w =
         (case decrementInventory ext rest ps of
            (ps', Return r) \<Rightarrow> (r, w\<lparr>products := ps'\<rparr>)
          | (ps', Throw e) \<Rightarrow>
              (failure 500 (message_or ext e ''Payment verification failed''), w\<lparr>products := ps'\<rparr>)
          | (ps', Continue) \<Rightarrow>
              (\<lparr>status = 200,
                body = Verified ''Payment verified successfully'' (Some (verify_order u vb))
                  (v_razorpayPaymentId vb) (v_razorpayOrderId vb)\<rparr>,
               notify (verify_order u vb) u
                 (w\<lparr>products := ps', orders := orders w @ [verify_order u vb]\<rparr>)))"
    if "decrementInventory ext pre (products w) = (ps, Continue)"
      "verify_reaches_loop ext vb w (pre @ item # rest)"
    by (simp only: verify_after_gates [OF that(2)] loop [OF that(1)])
  have m: "post_manual ext u mb w =
         (case decrementInventory ext rest ps of
            (ps', Return r) \<Rightarrow> (r, w\<lparr>products := ps'\<rparr>)
          | (ps', Throw e) \<Rightarrow>
              (failure 500 (message_or ext e ''Failed to process payment''), w\<lparr>products := ps'\<rparr>)
          | (ps', Continue) \<Rightarrow>
              (\<lparr>status = 200,
                body = ManualAccepted (manual_order u mb)
                  ''Order created successfully. Your payment is pending verification.''\<rparr>,
               notify (manual_order u mb) u
                 (w\<lparr>products := ps', orders := orders w @ [manual_order u mb]\<rparr>)))"
    if "decrementInventory ext pre (products w) = (ps, Continue)"
      "manual_reaches_loop ext mb (pre @ item # rest)"
    by (simp only: manual_after_gates [OF that(2)] loop [OF that(1)])
  have tail: "decrementInventory ext (item # rest) ps = decrementInventory ext rest ps"
    by (simp add: skip)
  show ?thesis using skip tail v m by blast
qed

theorem size_tracked_item_skipped_witness:
  "decrementItem sample_ext (line_item ''P2'' JUndefined (JNum (Fin 1))) sample_products
     = (sample_products, Continue)
   \<and> decrementItem sample_ext (line_item ''P2'' (JStr ''XL'') (JNum (Fin 1))) sample_products
     = (sample_products, Continue)
   \<and> decrementInventory sample_ext
       [line_item ''P2'' (JStr ''XL'') (JNum (Fin 1)), line_item ''P1'' JUndefined (JNum (Fin 2))]
       sample_products
     = (sample_products(JStr ''P1'' \<mapsto> \<lparr>title = ''Shirt'', trackInventoryBySize = False,
          stock = JNum (Fin 3), sizeInventory = None\<rparr>), Continue)
   \<and> status (fst (post_manual sample_ext sample_user
        (sample_manual (JArr [line_item ''P2'' (JStr ''XL'') (JNum (Fin 1)),
                              line_item ''P1'' JUndefined (JNum (Fin 2))]) (JStr ''411001''))
        sample_world)) = 200
   \<and> products (snd (post_verify sample_ext sample_user
        (sample_verify (JArr [line_item ''P2'' (JStr ''XL'') (JNum (Fin 1)),
                              line_item ''P1'' JUndefined (JNum (Fin 2))]) (JStr ''411001''))
        sample_world))
     = sample_products(JStr ''P1'' \<mapsto> \<lparr>title = ''Shirt'', trackInventoryBySize = False,
          stock = JNum (Fin 3), sizeInventory = None\<rparr>)"
proof -
  let ?nosize = "line_item ''P2'' JUndefined (JNum (Fin 1))"
  let ?xl = "line_item ''P2'' (JStr ''XL'') (JNum (Fin 1))"
  let ?next = "line_item ''P1'' JUndefined (JNum (Fin 2))"
  have start: "decrementInventory sample_ext [] (products sample_world) = (sample_products, Continue)"
    by (simp add: products_sample_world)
  have rest: "decrementInventory sample_ext [?next] sample_products
      = (sample_products(JStr ''P1'' \<mapsto> \<lparr>title = ''Shirt'', trackInventoryBySize = False,
          stock = JNum (Fin 3), sizeInventory = None\<rparr>), Continue)"
    by (simp add: decrementItem_line_item [where ps = sample_products and pid = "''P1''", OF _ sample_P1]
        decrementFlat_def requestedQty_line_item js_or_def js_Number_def to_double_small)
  note a = size_tracked_item_skipped
    [where u = sample_user and productId = "JStr ''P2''" and item = ?nosize and ext = sample_ext
       and rest = "[?next]" and pre = "[]" and ps = sample_products,
     OF _ _ _ sample_P2]
  note b = size_tracked_item_skipped
    [where u = sample_user and productId = "JStr ''P2''" and item = ?xl and ext = sample_ext
       and rest = "[?next]" and pre = "[]" and ps = sample_products and w = sample_world
       and vb = "sample_verify (JArr ([] @ ?xl # [?next])) (JStr ''411001'')"
       and mb = "sample_manual (JArr ([] @ ?xl # [?next])) (JStr ''411001'')",
     OF _ _ _ sample_P2]
  have a': "decrementItem sample_ext ?nosize sample_products = (sample_products, Continue)"
    using a by (simp add: line_item_props js_or_def)
  have b': "decrementItem sample_ext ?xl sample_products = (sample_products, Continue)
      \<and> decrementInventory sample_ext (?xl # [?next]) sample_products
        = decrementInventory sample_ext [?next] sample_products
      \<and> status (fst (post_manual sample_ext sample_user
          (sample_manual (JArr ([] @ ?xl # [?next])) (JStr ''411001'')) sample_world)) = 200
      \<and> products (snd (post_verify sample_ext sample_user
          (sample_verify (JArr ([] @ ?xl # [?next])) (JStr ''411001'')) sample_world))
        = sample_products(JStr ''P1'' \<mapsto> \<lparr>title = ''Shirt'', trackInventoryBySize = False,
          stock = JNum (Fin 3), sizeInventory = None\<rparr>)"
    using b rest start sample_verify_reaches [of "[] @ ?xl # [?next]"]
      sample_manual_reaches [of "[] @ ?xl # [?next]"]
    by (simp add: line_item_props js_or_def notify_products del: decrementInventory.simps)
  show ?thesis
    using a' b' rest by (simp del: decrementInventory.simps)
qed

section \<open>The pincode check\<close>

text \<open>
  C7, as amended. Let the text of the pincode not match \<^verbatim>\<open>^\d{4,8}$\<close>. POST /verify with a
  non-empty item payload leaves the state unchanged and answers 400, except that it
  answers 500 when the three identifiers are present and the secret does not resolve.
  POST /manual with a transaction id that is falsy or a string leaves the state unchanged
  and answers 400.
\<close>

theorem malformed_pincode_rejected:
  "(js_ToString ext (v_pincode vb) = Inr pin \<and> \<not> pinOk pin
      \<and> item_payload (v_items vb) = Some xs \<longrightarrow>
      snd (post_verify ext u vb w) = w
    \<and> status (fst (post_verify ext u vb w)) =
        (if \<not> missing_or_invalid (v_razorpayOrderId vb)
            \<and> \<not> missing_or_invalid (v_razorpayPaymentId vb)
            \<and> \<not> missing_or_invalid (v_razorpaySignature vb)
            \<and> isl (resolveKeySecret w)
         then 500 else 400))
   \<and> (js_ToString ext (m_pincode mb) = Inr mpin \<and> \<not> pinOk mpin
      \<and> \<not> isl (transaction_check (m_transactionId mb)) \<longrightarrow>
      snd (post_manual ext u mb w) = w
    \<and> status (fst (post_manual ext u mb w)) = 400)"
proof -
  have v: "snd (post_verify ext u vb w) = w
    \<and> status (fst (post_verify ext u vb w)) =
        (if \<not> missing_or_invalid (v_razorpayOrderId vb)
            \<and> \<not> missing_or_invalid (v_razorpayPaymentId vb)
            \<and> \<not> missing_or_invalid (v_razorpaySignature vb)
            \<and> isl (resolveKeySecret w)
         then 500 else 400)"
    if "js_ToString ext (v_pincode vb) = Inr pin" "\<not> pinOk pin"
      "item_payload (v_items vb) = Some xs"
    using that by (auto simp: post_verify_def failure_def split: sum.splits)
  have m: "snd (post_manual ext u mb w) = w \<and> status (fst (post_manual ext u mb w)) = 400"
    if "js_ToString ext (m_pincode mb) = Inr mpin" "\<not> pinOk mpin"
      "\<not> isl (transaction_check (m_transactionId mb))"
    using that
    by (auto simp: post_manual_def failure_def split: sum.splits jsval.splits bool.splits)
  from v m show ?thesis by blast
qed

theorem malformed_pincode_rejected_witness:
  "snd (post_verify sample_ext sample_user
      (sample_verify (JArr [line_item ''P1'' JUndefined (JNum (Fin 1))]) (JStr ''12ab''))
      sample_world) = sample_world
   \<and> status (fst (post_verify sample_ext sample_user
      (sample_verify (JArr [line_item ''P1'' JUndefined (JNum (Fin 1))]) (JStr ''12ab''))
      sample_world)) = 400
   \<and> snd (post_manual sample_ext sample_user
      (sample_manual (JArr [line_item ''P1'' JUndefined (JNum (Fin 1))]) (JStr ''123''))
      sample_world) = sample_world
   \<and> status (fst (post_manual sample_ext sample_user
      (sample_manual (JArr [line_item ''P1'' JUndefined (JNum (Fin 1))]) (JStr ''123''))
      sample_world)) = 400
   \<and> status (fst (post_verify sample_ext sample_user
      (sample_verify (JArr [line_item ''P1'' JUndefined (JNum (Fin 1))]) (JStr ''12ab''))
      (sample_world\<lparr>env_RAZORPAY_KEY_SECRET := None\<rparr>))) = 500"
proof -
  let ?xs = "[line_item ''P1'' JUndefined (JNum (Fin 1))]"
  note a = malformed_pincode_rejected
    [where ext = sample_ext and u = sample_user and w = sample_world
       and vb = "sample_verify (JArr ?xs) (JStr ''12ab'')" and pin = "''12ab''"
       and mb = "sample_manual (JArr ?xs) (JStr ''123'')" and mpin = "''123''"
       and xs = ?xs]
  note b = malformed_pincode_rejected
    [where ext = sample_ext and u = sample_user
       and w = "sample_world\<lparr>env_RAZORPAY_KEY_SECRET := None\<rparr>"
       and vb = "sample_verify (JArr ?xs) (JStr ''12ab'')" and pin = "''12ab''"
       and xs = ?xs]
  have unresolved: "isl (resolveKeySecret (sample_world\<lparr>env_RAZORPAY_KEY_SECRET := None\<rparr>))"
    by (simp add: resolveKeySecret_def getRazorpayInstance_def sample_world_def js_or_def
        env_value_def)
  have pins: "js_ToString sample_ext (JStr ''12ab'') = Inr ''12ab''" "\<not> pinOk ''12ab''"
    "js_ToString sample_ext (JStr ''123'') = Inr ''123''" "\<not> pinOk ''123''"
    by (simp_all add: js_ToString_def js_String_def pinOk_def is_digit_def)
  have txn: "\<not> isl (transaction_check (JStr ''TXN42''))"
    by (simp add: transaction_check_def)
  have a': "snd (post_verify sample_ext sample_user (sample_verify (JArr ?xs) (JStr ''12ab''))
        sample_world) = sample_world
     \<and> status (fst (post_verify sample_ext sample_user (sample_verify (JArr ?xs) (JStr ''12ab''))
        sample_world)) = 400
     \<and> snd (post_manual sample_ext sample_user (sample_manual (JArr ?xs) (JStr ''123''))
        sample_world) = sample_world
     \<and> status (fst (post_manual sample_ext sample_user (sample_manual (JArr ?xs) (JStr ''123''))
        sample_world)) = 400"
    using a pins txn
    by (simp add: sample_verify_def sample_manual_def sample_ids sample_secret item_payload_def)
  have b': "status (fst (post_verify sample_ext sample_user
      (sample_verify (JArr ?xs) (JStr ''12ab''))
      (sample_world\<lparr>env_RAZORPAY_KEY_SECRET := None\<rparr>))) = 500"
    using b unresolved pins
    by (simp add: sample_verify_def sample_ids item_payload_def)
  from a' b' show ?thesis by simp
qed

text \<open>
  The claim as stated fails: POST /verify resolves the gateway secret before it looks at
  the pincode, so a request with a malformed pincode is answered with 500 when the secret
  is not configured.
\<close>

theorem malformed_pincode_rejected_counterexample:
  "\<not> pinOk ''12ab''
   \<and> post_verify sample_ext sample_user
      (sample_verify (JArr [line_item ''P1'' JUndefined (JNum (Fin 1))]) (JStr ''12ab''))
      (sample_world\<lparr>env_RAZORPAY_KEY_SECRET := None\<rparr>)
     = (\<lparr>status = 500, body = Failure ''Payment verification system not configured''\<rparr>,
        sample_world\<lparr>env_RAZORPAY_KEY_SECRET := None\<rparr>)"
  by (simp add: post_verify_def sample_verify_def sample_ids resolveKeySecret_def
      getRazorpayInstance_def sample_world_def js_or_def env_value_def failure_def pinOk_def
      is_digit_def)

section \<open>Quantities across a checkout\<close>

lemma stock_invariant_mono:
  "(\<And>v. V v \<Longrightarrow> W v) \<Longrightarrow> stock_invariant V ps \<Longrightarrow> stock_invariant W ps"
  by (auto simp: stock_invariant_def product_ok_def list_all_iff split: option.splits)

lemma stock_invariant_update:
  "stock_invariant V ps \<Longrightarrow> product_ok V p \<Longrightarrow> stock_invariant V (ps(k \<mapsto> p))"
  by (simp add: stock_invariant_def)

lemma list_all_update:
  "list_all P xs \<Longrightarrow> P x \<Longrightarrow> list_all P (xs[i := x])"
  unfolding list_all_iff using set_update_subset_insert [of xs i x] by auto

lemma decrementFlat_invariant:
  assumes num: "\<And>v. V v \<Longrightarrow> \<exists>c. v = JNum c \<and> c \<noteq> NaN"
    and sub: "\<And>c r. V (JNum c) \<Longrightarrow> R r \<Longrightarrow> \<not> num_lt c r \<Longrightarrow> V (JNum (num_sub c r))"
    and inv: "stock_invariant V ps" and ok: "product_ok V p"
    and req: "requestedQty ext item = Inr r" "R r"
  shows "stock_invariant V (fst (decrementFlat ext item productId p ps))"
proof -
  have v: "V (stock p)" using ok by (simp add: product_ok_def)
  then obtain c where c: "stock p = JNum c" "c \<noteq> NaN" using num by blast
  have cur: "js_Number ext (js_or (stock p) (JNum (Fin 0))) = Inr c"
    using c by (auto simp: js_or_def js_Number_def)
  have old: "js_Number ext (stock p) = Inr c"
    using c by (simp add: js_Number_def)
  show ?thesis
  proof (cases "num_lt c r")
    case True
    then show ?thesis
      using inv req(1) cur by (simp add: decrementFlat_def Let_def)
  next
    case False
    have "V (JNum (num_sub c r))"
      using v req(2) False unfolding c(1) by (rule sub)
    then have "product_ok V (p\<lparr>stock := JNum (num_sub c r)\<rparr>)"
      using ok by (simp add: product_ok_def)
    then show ?thesis
      using inv req(1) cur old False
      by (simp add: decrementFlat_def Let_def stock_invariant_update)
  qed
qed

lemma decrementSize_invariant:
  assumes num: "\<And>v. V v \<Longrightarrow> \<exists>c. v = JNum c \<and> c \<noteq> NaN"
    and sub: "\<And>c r. V (JNum c) \<Longrightarrow> R r \<Longrightarrow> \<not> num_lt c r \<Longrightarrow> V (JNum (num_sub c r))"
    and inv: "stock_invariant V ps" and ok: "product_ok V p"
    and sizes: "sizeInventory p = Some sizeInv"
    and req: "requestedQty ext item = Inr r" "R r"
  shows "stock_invariant V (fst (decrementSize ext item productId p sizeInv ps))"
proof (cases "findIndex (\<lambda>s. JStr (code s) = get_prop item ''size'') sizeInv")
  case None
  then show ?thesis using inv by (simp add: decrementSize_def)
next
  case (Some i)
  then have i: "i < length sizeInv" using findIndex_Some by fastforce
  have all: "list_all (\<lambda>e. V (qty e)) sizeInv"
    using ok sizes by (simp add: product_ok_def)
  then have v: "V (qty (sizeInv ! i))"
    using i by (simp add: list_all_length)
  then obtain c where c: "qty (sizeInv ! i) = JNum c" using num by blast
  have cur: "js_Number ext (qty (sizeInv ! i)) = Inr c"
    using c by (simp add: js_Number_def)
  show ?thesis
  proof (cases "num_lt c r")
    case True
    then show ?thesis
      using inv req(1) cur Some by (simp add: decrementSize_def Let_def)
  next
    case False
    have "V (JNum (num_sub c r))"
      using v req(2) False unfolding c by (rule sub)
    then have "list_all (\<lambda>e. V (qty e)) (sizeInv[i := (sizeInv ! i)
        \<lparr>qty := JNum (num_sub c r)\<rparr>])"
      using all by (intro list_all_update) simp_all
    then have "product_ok V (p\<lparr>sizeInventory := Some (sizeInv[i := (sizeInv ! i)
        \<lparr>qty := JNum (num_sub c r)\<rparr>])\<rparr>)"
      using ok by (simp add: product_ok_def)
    then show ?thesis
      using inv req(1) cur Some False
      by (simp add: decrementSize_def Let_def stock_invariant_update)
  qed
qed

lemma decrementItem_invariant:
  assumes num: "\<And>v. V v \<Longrightarrow> \<exists>c. v = JNum c \<and> c \<noteq> NaN"
    and sub: "\<And>c r. V (JNum c) \<Longrightarrow> R r \<Longrightarrow> \<not> num_lt c r \<Longrightarrow> V (JNum (num_sub c r))"
    and inv: "stock_invariant V ps"
    and req: "requestedQty ext item = Inr r" "R r"
  shows "stock_invariant V (fst (decrementItem ext item ps))"
proof -
  have ok: "product_ok V p" if "ps k = Some p" for k p
    using that inv by (auto simp: stock_invariant_def)
  have flat: "stock_invariant V (fst (decrementFlat ext item k p ps))"
    if "ps k = Some p" for k p
    using num sub inv ok [OF that] req by (rule decrementFlat_invariant)
  have sized: "stock_invariant V (fst (decrementSize ext item k p sizeInv ps))"
    if "ps k = Some p" "sizeInventory p = Some sizeInv" for k p sizeInv
    using num sub inv ok [OF that(1)] that(2) req by (rule decrementSize_invariant)
  show ?thesis
    using inv flat sized
    by (auto simp: decrementItem_def Let_def split: option.splits)
qed

lemma decrementInventory_invariant:
  assumes num: "\<And>v. V v \<Longrightarrow> \<exists>c. v = JNum c \<and> c \<noteq> NaN"
    and sub: "\<And>c r. V (JNum c) \<Longrightarrow> R r \<Longrightarrow> \<not> num_lt c r \<Longrightarrow> V (JNum (num_sub c r))"
  shows "stock_invariant V ps \<Longrightarrow>
    list_all (\<lambda>item. \<exists>r. requestedQty ext item = Inr r \<and> R r) xs \<Longrightarrow>
    stock_invariant V (fst (decrementInventory ext xs ps))"
proof (induction xs arbitrary: ps)
  case Nil
  then show ?case by simp
next
  case (Cons item rest)
  from Cons.prems(2) obtain r where r: "requestedQty ext item = Inr r" "R r" by auto
  have step: "stock_invariant V (fst (decrementItem ext item ps))"
    using num sub Cons.prems(1) r by (rule decrementItem_invariant)
  obtain ps' s where d: "decrementItem ext item ps = (ps', s)"
    by (cases "decrementItem ext item ps")
  show ?case
  proof (cases s)
    case Continue
    then show ?thesis
      using d step Cons.prems Cons.IH [of ps'] by simp
  next
    case (Return x)
    then show ?thesis using d step by simp
  next
    case (Throw e)
    then show ?thesis using d step by simp
  qed
qed

lemma nat_or_infinite_num: "nat_or_infinite v \<Longrightarrow> \<exists>c. v = JNum c \<and> c \<noteq> NaN"
  by (cases v rule: nat_or_infinite.cases) auto

lemma safe_nat_num: "safe_nat v \<Longrightarrow> \<exists>c. v = JNum c \<and> c \<noteq> NaN"
  by (cases v rule: safe_nat.cases) auto

lemma nat_or_infinite_sub:
  assumes "nat_or_infinite (JNum c)" and "\<exists>x. r = Fin x \<and> whole x" and "\<not> num_lt c r"
  shows "nat_or_infinite (JNum (num_sub c r))"
proof -
  from assms(2) obtain x where x: "r = Fin x" "whole x" by blast
  show ?thesis
  proof (cases c)
    case (Fin a)
    with assms(1,3) x have "whole (a - x)" "0 \<le> a - x"
      by (simp_all add: whole_diff)
    then have "to_double (a - x) = PosInf
        \<or> (\<exists>y. to_double (a - x) = Fin y \<and> 0 \<le> y \<and> whole y)"
      by (rule to_double_whole)
    then show ?thesis using Fin x by auto
  qed (use assms(1) x in simp_all)
qed

lemma safe_nat_sub:
  assumes "safe_nat (JNum c)" and "\<exists>x. r = Fin x \<and> whole x \<and> 0 \<le> x" and "\<not> num_lt c r"
  shows "safe_nat (JNum (num_sub c r))"
proof -
  from assms(2) obtain x where x: "r = Fin x" "whole x" "0 \<le> x" by blast
  show ?thesis
  proof (cases c)
    case (Fin a)
    with assms(1,3) x have d: "whole (a - x)" "0 \<le> a - x" "a - x < 2 ^ 53"
      by (simp_all add: whole_diff)
    then have "to_double (a - x) = Fin (a - x)"
      by (rule to_double_safe)
    then show ?thesis using Fin x d by simp
  qed (use assms(1) in simp_all)
qed

lemma whole_request_iff:
  "whole_request ext item \<longleftrightarrow> (\<exists>r. requestedQty ext item = Inr r \<and> (\<exists>x. r = Fin x \<and> whole x))"
  by (auto simp: whole_request_def split: sum.splits jsnum.splits)

lemma natural_request_iff:
  "natural_request ext item \<longleftrightarrow>
   (\<exists>r. requestedQty ext item = Inr r \<and> (\<exists>x. r = Fin x \<and> whole x \<and> 0 \<le> x))"
  by (auto simp: natural_request_def split: sum.splits jsnum.splits)

lemma loop_keeps_nat_or_infinite:
  assumes "stock_invariant nat_valued ps" and "list_all (whole_request ext) xs"
  shows "stock_invariant nat_or_infinite (fst (decrementInventory ext xs ps))"
proof -
  have "stock_invariant nat_or_infinite ps"
  proof (rule stock_invariant_mono [OF _ assms(1)])
    fix v show "nat_valued v \<Longrightarrow> nat_or_infinite v"
      by (cases v rule: nat_or_infinite.cases) simp_all
  qed
  moreover have "list_all (\<lambda>item. \<exists>r. requestedQty ext item = Inr r
      \<and> (\<exists>x. r = Fin x \<and> whole x)) xs"
    using assms(2) by (simp add: whole_request_iff [abs_def])
  ultimately show ?thesis
    using nat_or_infinite_num nat_or_infinite_sub
    by (intro decrementInventory_invariant [where V = nat_or_infinite
          and R = "\<lambda>r. \<exists>x. r = Fin x \<and> whole x"]) blast+
qed

lemma loop_keeps_safe_nat:
  assumes "stock_invariant safe_nat ps" and "list_all (natural_request ext) xs"
  shows "stock_invariant safe_nat (fst (decrementInventory ext xs ps))"
proof -
  have "list_all (\<lambda>item. \<exists>r. requestedQty ext item = Inr r
      \<and> (\<exists>x. r = Fin x \<and> whole x \<and> 0 \<le> x)) xs"
    using assms(2) by (simp add: natural_request_iff [abs_def])
  then show ?thesis
    using assms(1) safe_nat_num safe_nat_sub
    by (intro decrementInventory_invariant [where V = safe_nat
          and R = "\<lambda>r. \<exists>x. r = Fin x \<and> whole x \<and> 0 \<le> x"]) blast+
qed

lemma verify_products:
  "products (snd (post_verify ext u b w)) = products w
   \<or> products (snd (post_verify ext u b w))
       = fst (decrementInventory ext (items_of (v_items b)) (products w))"
  by (auto simp: post_verify_def Let_def item_payload_def items_of_def notify_products
      split: sum.splits option.splits prod.splits step.splits jsval.splits if_splits)

lemma manual_products:
  "products (snd (post_manual ext u b w)) = products w
   \<or> products (snd (post_manual ext u b w))
       = fst (decrementInventory ext (items_of (m_items b)) (products w))"
  by (auto simp: post_manual_def Let_def items_of_def notify_products
      split: sum.splits bool.splits prod.splits step.splits jsval.splits if_splits)

lemma sample_products_safe: "stock_invariant safe_nat sample_products"
  by (auto simp: stock_invariant_def sample_products_def product_ok_def whole_def
      split: if_splits)

lemma sample_products_invariant: "stock_invariant nat_valued sample_products"
  by (auto simp: stock_invariant_def sample_products_def product_ok_def whole_def
      split: if_splits)

lemma whole_request_line_item:
  "whole_request ext (line_item pid sz (JNum (Fin r))) = (if r = 0 then True else whole r)"
  by (simp add: whole_request_def requestedQty_line_item whole_def)

lemma natural_request_line_item:
  "natural_request ext (line_item pid sz (JNum (Fin r))) = (if r = 0 then True else whole r \<and> 0 \<le> r)"
  by (simp add: natural_request_def requestedQty_line_item whole_def)

text \<open>
  C8, as amended. If every flat stock and every per-size quantity is a non-negative
  integer, and every line item of the request asks for an integer quantity (of either
  sign), then after POST /verify and after POST /manual, whatever they answer, every flat
  stock and every per-size quantity is a non-negative integer or \<^verbatim>\<open>Infinity\<close>. If moreover
  the quantities in stock are below \<open>2^53\<close> and no line item asks for a negative quantity,
  they are non-negative integers below \<open>2^53\<close> afterwards.
\<close>

theorem checkout_keeps_quantities_natural:
  "(stock_invariant nat_valued (products w)
      \<and> list_all (whole_request ext) (items_of (v_items vb)) \<longrightarrow>
    stock_invariant nat_or_infinite (products (snd (post_verify ext u vb w))))
   \<and> (stock_invariant nat_valued (products w)
      \<and> list_all (whole_request ext) (items_of (m_items mb)) \<longrightarrow>
    stock_invariant nat_or_infinite (products (snd (post_manual ext u mb w))))
   \<and> (stock_invariant safe_nat (products w)
      \<and> list_all (natural_request ext) (items_of (v_items vb)) \<longrightarrow>
    stock_invariant safe_nat (products (snd (post_verify ext u vb w))))
   \<and> (stock_invariant safe_nat (products w)
      \<and> list_all (natural_request ext) (items_of (m_items mb)) \<longrightarrow>
    stock_invariant safe_nat (products (snd (post_manual ext u mb w))))"
proof -
  have wide: "stock_invariant nat_or_infinite (products w)"
    if "stock_invariant nat_valued (products w)"
  proof (rule stock_invariant_mono [OF _ that])
    fix v show "nat_valued v \<Longrightarrow> nat_or_infinite v"
      by (cases v rule: nat_or_infinite.cases) simp_all
  qed
  have a: "stock_invariant nat_or_infinite (products (snd (post_verify ext u vb w)))"
    if "stock_invariant nat_valued (products w)"
      "list_all (whole_request ext) (items_of (v_items vb))"
    using verify_products [of ext u vb w] wide [OF that(1)]
      loop_keeps_nat_or_infinite [OF that] by auto
  have b: "stock_invariant nat_or_infinite (products (snd (post_manual ext u mb w)))"
    if "stock_invariant nat_valued (products w)"
      "list_all (whole_request ext) (items_of (m_items mb))"
    using manual_products [of ext u mb w] wide [OF that(1)]
      loop_keeps_nat_or_infinite [OF that] by auto
  have c: "stock_invariant safe_nat (products (snd (post_verify ext u vb w)))"
    if "stock_invariant safe_nat (products w)"
      "list_all (natural_request ext) (items_of (v_items vb))"
    using verify_products [of ext u vb w] that(1) loop_keeps_safe_nat [OF that] by auto
  have d: "stock_invariant safe_nat (products (snd (post_manual ext u mb w)))"
    if "stock_invariant safe_nat (products w)"
      "list_all (natural_request ext) (items_of (m_items mb))"
    using manual_products [of ext u mb w] that(1) loop_keeps_safe_nat [OF that] by auto
  from a b c d show ?thesis by blast
qed

theorem checkout_keeps_quantities_natural_witness:
  "stock_invariant nat_or_infinite (products (snd (post_verify sample_ext sample_user
      (sample_verify (JArr [line_item ''P1'' JUndefined (JNum (Fin (- 2))),
                            line_item ''P2'' (JStr ''M'') (JNum (Fin 1))]) (JStr ''411001''))
      sample_world)))
   \<and> stock_invariant safe_nat (products (snd (post_manual sample_ext sample_user
      (sample_manual (JArr [line_item ''P1'' JUndefined (JNum (Fin 2)),
                            line_item ''P2'' (JStr ''M'') (JNum (Fin 1))]) (JStr ''411001''))
      sample_world)))"
  using checkout_keeps_quantities_natural
    [where ext = sample_ext and u = sample_user and w = sample_world
       and vb = "sample_verify (JArr [line_item ''P1'' JUndefined (JNum (Fin (- 2))),
                            line_item ''P2'' (JStr ''M'') (JNum (Fin 1))]) (JStr ''411001'')"
       and mb = "sample_manual (JArr [line_item ''P1'' JUndefined (JNum (Fin 2)),
                            line_item ''P2'' (JStr ''M'') (JNum (Fin 1))]) (JStr ''411001'')"]
  by (simp add: products_sample_world sample_products_invariant sample_products_safe
      sample_verify_def sample_manual_def items_of_def whole_request_line_item
      natural_request_line_item whole_def)

text \<open>
  The claim as stated fails for a fractional quantity: \<^verbatim>\<open>qty\<close> 0.5 of a product with stock 5
  leaves the stock at 4.5.
\<close>

theorem checkout_keeps_quantities_natural_counterexample:
  "stock_invariant nat_valued (products sample_world)
   \<and> products (snd (post_manual sample_ext sample_user
        (sample_manual (JArr [line_item ''P1'' JUndefined (JNum (Fin (1 / 2)))]) (JStr ''411001''))
        sample_world)) (JStr ''P1'')
     = Some \<lparr>title = ''Shirt'', trackInventoryBySize = False, stock = JNum (Fin (9 / 2)),
             sizeInventory = None\<rparr>
   \<and> \<not> nat_valued (JNum (Fin (9 / 2)))
   \<and> \<not> stock_invariant nat_valued (products (snd (post_manual sample_ext sample_user
        (sample_manual (JArr [line_item ''P1'' JUndefined (JNum (Fin (1 / 2)))]) (JStr ''411001''))
        sample_world)))"
proof -
  let ?half = "line_item ''P1'' JUndefined (JNum (Fin (1 / 2)))"
  let ?after = "products (snd (post_manual sample_ext sample_user
        (sample_manual (JArr [?half]) (JStr ''411001'')) sample_world))"
  have loop: "decrementInventory sample_ext [?half] (products sample_world)
    = (sample_products(JStr ''P1'' \<mapsto> \<lparr>title = ''Shirt'', trackInventoryBySize = False,
         stock = JNum (Fin (9 / 2)), sizeInventory = None\<rparr>), Continue)"
    by (simp add: products_sample_world
        decrementItem_line_item [where ps = sample_products and pid = "''P1''", OF _ sample_P1]
        decrementFlat_def requestedQty_line_item js_or_def js_Number_def to_double_nine_halves)
  have after: "?after (JStr ''P1'') = Some \<lparr>title = ''Shirt'', trackInventoryBySize = False,
      stock = JNum (Fin (9 / 2)), sizeInventory = None\<rparr>"
    by (simp add: manual_after_gates [OF sample_manual_reaches] loop notify_products
        del: decrementInventory.simps)
  have frac: "\<not> nat_valued (JNum (Fin (9 / 2)))"
    by (simp add: whole_def floor_rat)
  have "\<not> stock_invariant nat_valued ?after"
  proof
    assume "stock_invariant nat_valued ?after"
    with after have "product_ok nat_valued \<lparr>title = ''Shirt'', trackInventoryBySize = False,
      stock = JNum (Fin (9 / 2)), sizeInventory = None\<rparr>"
      unfolding stock_invariant_def by blast
    with frac show False by (simp add: product_ok_def)
  qed
  with after frac show ?thesis
    by (simp add: products_sample_world sample_products_invariant)
qed

text \<open>
  \<^verbatim>\<open>Infinity\<close> is reached: a negative quantity adds to the stock, and the sum of two doubles
  can overflow, as for the stock \<open>2^1023\<close> and the quantity \<open>-2^1023\<close>.
\<close>

lemma flat_stock_overflows:
  assumes "stock p = JNum (Fin a)" and "0 < a"
    and "requestedQty ext item = Inr (Fin (- b))" and "2 ^ 1024 \<le> a + b"
  shows "decrementFlat ext item productId p ps
    = (ps(productId \<mapsto> p\<lparr>stock := JNum PosInf\<rparr>), Continue)"
proof -
  have "(0::rat) < 2 ^ 1024" by simp
  then have "0 < a + b" using assms(4) by (rule less_le_trans)
  then have ge: "\<not> a < - b" by simp
  have "to_double (a + b) = PosInf" using assms(4) by (rule to_double_overflow)
  then show ?thesis
    using assms(1,2,3) ge by (simp add: decrementFlat_def Let_def js_or_def js_Number_def)
qed

lemma sample_stock_overflows:
  "decrementInventory sample_ext [line_item ''P1'' JUndefined (JNum (Fin (- (2 ^ 1023))))]
     (sample_products(JStr ''P1'' \<mapsto> \<lparr>title = ''Shirt'', trackInventoryBySize = False,
        stock = JNum (Fin (2 ^ 1023)), sizeInventory = None\<rparr>))
   = (sample_products(JStr ''P1'' \<mapsto> \<lparr>title = ''Shirt'', trackInventoryBySize = False,
        stock = JNum PosInf, sizeInventory = None\<rparr>), Continue)"
proof -
  let ?p = "\<lparr>title = ''Shirt'', trackInventoryBySize = False,
        stock = JNum (Fin (2 ^ 1023)), sizeInventory = None\<rparr>"
  let ?item = "line_item ''P1'' JUndefined (JNum (Fin (- (2 ^ 1023))))"
  have "decrementFlat sample_ext ?item (JStr ''P1'') ?p
      (sample_products(JStr ''P1'' \<mapsto> ?p))
    = ((sample_products(JStr ''P1'' \<mapsto> ?p))(JStr ''P1'' \<mapsto> ?p\<lparr>stock := JNum PosInf\<rparr>), Continue)"
  proof (rule flat_stock_overflows [where a = "2 ^ 1023" and b = "2 ^ 1023"])
    show "stock ?p = JNum (Fin (2 ^ 1023))" by simp
    show "(0::rat) < 2 ^ 1023" by simp
    show "requestedQty sample_ext ?item = Inr (Fin (- (2 ^ 1023)))"
      by (simp add: requestedQty_line_item)
    show "(2::rat) ^ 1024 \<le> 2 ^ 1023 + 2 ^ 1023" by simp
  qed
  then show ?thesis
    by (simp add: decrementItem_line_item [where pid = "''P1''" and p = ?p])
qed

section \<open>The default quantity\<close>




section \<open>The signature comparison\<close>

text \<open>
  The comparison of lines 165-175 holds exactly when the submitted signature is the
  digest of \<^verbatim>\<open>orderId|paymentId\<close> under the secret; after a valid signature, any other
  signature is refused; a changed identifier changes the signed message; and a refused
  signature is answered with status 400, leaving the state as it was. Whether a changed
  message changes the digest is a property of the digest function, a parameter here.
\<close>

lemma verifySignature_iff:
  "verifySignature ext razorpayOrderId razorpayPaymentId razorpaySignature keySecret \<longleftrightarrow>
   razorpaySignature
     = JStr (hmac_sha256_hex ext keySecret (razorpayOrderId @ ''|'' @ razorpayPaymentId))"
  by (auto simp: verifySignature_def)

lemma verifySignature_other_signature:
  "verifySignature ext razorpayOrderId razorpayPaymentId razorpaySignature keySecret \<Longrightarrow>
   other \<noteq> razorpaySignature \<Longrightarrow>
   \<not> verifySignature ext razorpayOrderId razorpayPaymentId other keySecret"
  by (auto simp: verifySignature_def)

lemma signed_message_changes:
  "razorpayOrderId @ ''|'' @ razorpayPaymentId = other @ ''|'' @ razorpayPaymentId \<longleftrightarrow>
   razorpayOrderId = other"
  "razorpayOrderId @ ''|'' @ razorpayPaymentId = razorpayOrderId @ ''|'' @ other \<longleftrightarrow>
   razorpayPaymentId = other"
  by simp_all

lemma post_verify_refused_signature:
  assumes "\<not> missing_or_invalid (v_razorpayOrderId b)"
    and "\<not> missing_or_invalid (v_razorpayPaymentId b)"
    and "\<not> missing_or_invalid (v_razorpaySignature b)"
    and "resolveKeySecret w = Inr keySecret"
    and "\<not> verifySignature ext (js_String ext (v_razorpayOrderId b))
           (js_String ext (v_razorpayPaymentId b)) (v_razorpaySignature b) keySecret"
  shows "post_verify ext u b w = (failure 400 ''Invalid payment signature'', w)"
  using assms by (simp add: post_verify_def)

section \<open>Conversions that throw\<close>

text \<open>
  A pincode or a transaction id whose conversion throws takes the handler to its outer
  \<^verbatim>\<open>catch\<close>, and an item the provider request cannot be built from is answered as a
  provider failure.
\<close>

lemma post_verify_unconvertible_pincode:
  "post_verify sample_ext sample_user
     (sample_verify (JArr [line_item ''P1'' JUndefined (JNum (Fin 1))])
        (JObj [(''toString'', JNum (Fin 1))]))
     sample_world
   = (\<lparr>status = 500, body = Failure ''TypeError''\<rparr>, sample_world)"
  by (simp add: post_verify_def sample_verify_def sample_ids sample_secret verifySignature_def
      sample_ext_def js_String_def js_ToString_def item_payload_def message_or_def
      error_text_def failure_def)

lemma post_manual_unconvertible_pincode:
  "post_manual sample_ext sample_user
     (sample_manual (JArr [line_item ''P1'' JUndefined (JNum (Fin 1))])
        (JObj [(''toString'', JNum (Fin 1))]))
     sample_world
   = (\<lparr>status = 500, body = Failure ''TypeError''\<rparr>, sample_world)"
  by (simp add: post_manual_def sample_manual_def transaction_check_def js_trim_def
      is_js_space_def sample_ext_def js_ToString_def message_or_def error_text_def failure_def)

lemma post_manual_transaction_not_string:
  "post_manual sample_ext sample_user
     ((sample_manual (JArr [line_item ''P1'' JUndefined (JNum (Fin 1))]) (JStr ''12ab''))
        \<lparr>m_transactionId := JNum (Fin 42)\<rparr>)
     sample_world
   = (\<lparr>status = 500, body = Failure ''TypeError''\<rparr>, sample_world)"
  by (simp add: post_manual_def sample_manual_def transaction_check_def sample_ext_def
      message_or_def error_text_def failure_def)

lemma create_order_null_item:
  "post_create_order sample_ext (sample_create (JNum (Fin 49900)) (JArr [JNull])) sample_world
   = (\<lparr>status = 502, body = Failure ''Failed to create order with payment provider''\<rparr>,
      sample_world)"
  by (simp add: post_create_order_def sample_create_def sample_world_def parseFloat_def
      num_le_def getRazorpayInstance_def js_or_def env_value_def create_request_def
      notes_items_def nullish_def failure_def floor_rat)

end
